theory Spec2Isabelle
  imports Complex_Main "HOL-Library.Sublist"
begin

section \<open>Python values and exceptions\<close>

text \<open>
  The services of the repository (\<^verbatim>\<open>app/services/abac_service.py\<close> and
  \<^verbatim>\<open>app/services/visual_workflow_service.py\<close>) are embedded as HOL functions.
  An exception is a value of type \<open>error\<close>; a function that may raise returns
  \<open>error + 'a\<close> with \<open>Inl\<close> for the exception. \<open>HTTPException n\<close> carries the
  status code of a \<^verbatim>\<open>raise HTTPException(status_code=n, ...)\<close>.
\<close>

datatype error =
    AttributeError
  | TypeError
  | ValueError
  | OverflowError
  | KeyError
  | IntegrityError
  | HTTPException nat

text \<open>
  A Python float is an IEEE binary64 value. Comparing two such values is exact, so the
  values are kept symbolically: a finite value by the rational it denotes. What is not
  exact (rounding an integer, parsing a string, printing) stays outside, in
  \<open>py_builtins\<close> below.
\<close>

datatype pyfloat = Finite rat | PosInf | NegInf | NaN

text \<open>
  The values found in JSON columns and attribute bags. \<open>PDict\<close> is a dictionary with
  string keys, as an association list in which the first binding of a key is the one
  that counts. \<open>PObj n\<close> is any other Python object (a datetime, a bound method), known
  only by a tag.
\<close>

datatype pyval =
    PNone
  | PBool bool
  | PInt int
  | PFloat pyfloat
  | PStr string
  | PList "pyval list"
  | PDict "(string \<times> pyval) list"
  | PObj nat

type_synonym pydict = "(string \<times> pyval) list"

text \<open>
  The builtins of Python that the services call and that the repository does not define:
  \<^item> \<open>float_of_int\<close>: \<^verbatim>\<open>float(i)\<close> of an integer, \<open>None\<close> when it raises OverflowError;
  \<^item> \<open>float_of_str\<close>: \<^verbatim>\<open>float(s)\<close> of a string, \<open>None\<close> when it raises ValueError;
  \<^item> \<open>float_of_obj\<close>: \<^verbatim>\<open>float(o)\<close> of another object;
  \<^item> \<open>str_of\<close>: \<^verbatim>\<open>str(v)\<close>;
  \<^item> \<open>py_equal\<close>: \<^verbatim>\<open>a == b\<close>;
  \<^item> \<open>getattr_of\<close>: \<^verbatim>\<open>getattr(v, name, None)\<close> of a value that is not a dictionary;
  \<^item> \<open>json_loads\<close>: \<^verbatim>\<open>json.loads(s)\<close>, \<open>None\<close> when it raises JSONDecodeError.
\<close>

record py_builtins =
  float_of_int :: "int \<Rightarrow> pyfloat option"
  float_of_str :: "string \<Rightarrow> pyfloat option"
  float_of_obj :: "nat \<Rightarrow> error + pyfloat"
  str_of :: "pyval \<Rightarrow> string"
  py_equal :: "pyval \<Rightarrow> pyval \<Rightarrow> bool"
  getattr_of :: "pyval \<Rightarrow> string \<Rightarrow> pyval"
  json_loads :: "string \<Rightarrow> pyval option"

fun py_float :: "py_builtins \<Rightarrow> pyval \<Rightarrow> error + pyfloat" where
  "py_float B PNone = Inl TypeError"
| "py_float B (PBool b) = Inr (Finite (if b then 1 else 0))"
| "py_float B (PInt i) =
     (case float_of_int B i of None \<Rightarrow> Inl OverflowError | Some f \<Rightarrow> Inr f)"
| "py_float B (PFloat f) = Inr f"
| "py_float B (PStr s) =
     (case float_of_str B s of None \<Rightarrow> Inl ValueError | Some f \<Rightarrow> Inr f)"
| "py_float B (PList xs) = Inl TypeError"
| "py_float B (PDict d) = Inl TypeError"
| "py_float B (PObj n) = float_of_obj B n"

fun float_lt :: "pyfloat \<Rightarrow> pyfloat \<Rightarrow> bool" where
  "float_lt NaN y = False"
| "float_lt x NaN = False"
| "float_lt PosInf y = False"
| "float_lt x NegInf = False"
| "float_lt NegInf y = True"
| "float_lt x PosInf = True"
| "float_lt (Finite a) (Finite b) = (a < b)"

fun float_le :: "pyfloat \<Rightarrow> pyfloat \<Rightarrow> bool" where
  "float_le NaN y = False"
| "float_le x NaN = False"
| "float_le NegInf y = True"
| "float_le x PosInf = True"
| "float_le PosInf y = False"
| "float_le x NegInf = False"
| "float_le (Finite a) (Finite b) = (a \<le> b)"

text \<open>\<^verbatim>\<open>d.get(k)\<close> and \<^verbatim>\<open>d.get(k, default)\<close>.\<close>

definition dict_get :: "pydict \<Rightarrow> string \<Rightarrow> pyval \<Rightarrow> pyval" where
  "dict_get d k dflt = (case map_of d k of None \<Rightarrow> dflt | Some v \<Rightarrow> v)"

text \<open>\<^verbatim>\<open>d.update(e)\<close>: the bindings of \<open>e\<close> come first, so they win.\<close>

definition dict_update :: "pydict \<Rightarrow> pydict \<Rightarrow> pydict" where
  "dict_update d e = e @ d"

text \<open>\<^verbatim>\<open>s.split(".")\<close>: never empty.\<close>

fun split_dot :: "string \<Rightarrow> string list" where
  "split_dot [] = [[]]"
| "split_dot (c # cs) =
     (if c = CHR ''.'' then [] # split_dot cs
      else (case split_dot cs of [] \<Rightarrow> [[c]] | w # ws \<Rightarrow> (c # w) # ws))"

text \<open>\<^verbatim>\<open>s.strip()\<close> on ASCII strings.\<close>

definition py_whitespace :: "char \<Rightarrow> bool" where
  "py_whitespace c =
     (c = CHR '' '' \<or> c = CHR 0x09 \<or> c = CHR 0x0A \<or> c = CHR 0x0B \<or> c = CHR 0x0C \<or>
      c = CHR 0x0D \<or> c = CHR 0x1C \<or> c = CHR 0x1D \<or> c = CHR 0x1E \<or> c = CHR 0x1F)"

definition py_strip :: "string \<Rightarrow> string" where
  "py_strip s = rev (dropWhile py_whitespace (rev (dropWhile py_whitespace s)))"

text \<open>\<^verbatim>\<open>s.lower()\<close> on ASCII strings.\<close>

definition py_lower_char :: "char \<Rightarrow> char" where
  "py_lower_char c =
     (let n = (of_char c :: nat)
      in if 65 \<le> n \<and> n \<le> 90 then char_of (n + 32) else c)"

definition py_lower :: "string \<Rightarrow> string" where
  "py_lower s = map py_lower_char s"

text \<open>Truthiness of an optional list (\<^verbatim>\<open>if xs:\<close> on a JSON column that is null or a list).\<close>

fun truthy_list :: "'a list option \<Rightarrow> bool" where
  "truthy_list None = False"
| "truthy_list (Some xs) = (xs \<noteq> [])"

fun opt_str :: "string option \<Rightarrow> pyval" where
  "opt_str None = PNone"
| "opt_str (Some s) = PStr s"

fun opt_int :: "int option \<Rightarrow> pyval" where
  "opt_int None = PNone"
| "opt_int (Some i) = PInt i"

fun opt_bool :: "bool option \<Rightarrow> pyval" where
  "opt_bool None = PNone"
| "opt_bool (Some b) = PBool b"

section \<open>The ABAC data model (\<^verbatim>\<open>app/models/abac.py\<close>, \<^verbatim>\<open>app/models/user.py\<close>)\<close>

datatype PolicyEffect = allow | deny

text \<open>
  A condition is a JSON object; the \<^verbatim>\<open>conditions\<close> column of a policy is null or a
  JSON object from group keys to lists of conditions.
\<close>

type_synonym condition = pydict
type_synonym condition_groups = "(string \<times> condition list) list"

record ABACPolicy =
  policy_id :: int
  name :: string
  effect :: PolicyEffect
  priority :: int
  action :: string
  resource_type :: string
  conditions :: "condition_groups option"
  department_ids :: "int list option"
  division_ids :: "int list option"
  role_requirements :: "string list option"
  is_active :: bool

record UserAttribute =
  ua_user_id :: int
  department_id :: "int option"
  division_id :: "int option"
  team_id :: "int option"
  job_title :: "string option"
  job_level :: "int option"
  approval_limit_amount :: "int option"
  can_approve_own_department :: "bool option"
  can_approve_all_departments :: "bool option"
  office_location :: "string option"
  country_code :: "string option"
  custom_attributes :: "pydict option"

record ResourceAttribute =
  ra_resource_type :: string
  ra_resource_id :: int
  attribute_name :: string
  attribute_value :: "string option"
  attribute_type :: string

record ABACAccessLog =
  log_user_id :: int
  log_action :: string
  log_resource_type :: string
  log_resource_id :: "int option"
  log_decision :: string
  log_policy_id :: "int option"
  log_user_attributes :: pydict
  log_resource_attributes :: pydict
  log_environment_attributes :: pydict
  log_evaluated_policies :: "int list"
  log_evaluation_time_ms :: int
  log_reason :: string
  log_ip_address :: pyval
  log_user_agent :: pyval
  log_endpoint :: pyval

text \<open>
  The \<^verbatim>\<open>user\<close> argument of the services, by the attributes they read. The services
  read \<^verbatim>\<open>user.username\<close> and \<^verbatim>\<open>user.full_name\<close>, which the \<^verbatim>\<open>User\<close> class of
  \<^verbatim>\<open>app/models/user.py\<close> does not declare: \<open>None\<close> in these two fields is an object
  without the attribute, and reading it raises AttributeError. \<open>roles\<close> and
  \<open>is_superuser\<close> are read with \<^verbatim>\<open>getattr(user, ..., default)\<close>: \<open>None\<close> is again an
  object without the attribute. \<open>role\<close> is a nullable column.
\<close>

record User =
  user_id :: int
  email :: string
  username :: "string option"
  full_name :: "string option"
  role :: "string option"
  user_is_active :: bool
  is_superuser :: "bool option"
  roles :: "string list option"

text \<open>The tables the ABAC service reads and writes, each in the order a query returns it.\<close>

record abac_db =
  abac_policies :: "ABACPolicy list"
  user_attributes :: "UserAttribute list"
  resource_attributes :: "ResourceAttribute list"
  abac_access_logs :: "ABACAccessLog list"

text \<open>
  What \<^verbatim>\<open>datetime.utcnow()\<close> and \<^verbatim>\<open>time.time()\<close> give during one call of
  \<^verbatim>\<open>check_access\<close>.
\<close>

record clock =
  current_time :: string
  current_date :: string
  current_hour :: int
  current_day_of_week :: string
  current_month :: int
  current_year :: int
  evaluation_time_ms :: int

section \<open>Attribute gathering\<close>

text \<open>\<^verbatim>\<open>db.query(UserAttribute).filter_by(user_id=user.id).first()\<close>\<close>

definition query_user_attribute :: "abac_db \<Rightarrow> User \<Rightarrow> UserAttribute option" where
  "query_user_attribute db user = find (\<lambda>a. ua_user_id a = user_id user) (user_attributes db)"

text \<open>\<^verbatim>\<open>[r.name for r in getattr(user, "roles", [])] or [user.role]\<close>\<close>

definition user_roles :: "User \<Rightarrow> string option list" where
  "user_roles user =
     (let names = (case roles user of None \<Rightarrow> [] | Some rs \<Rightarrow> rs)
      in if names \<noteq> [] then map Some names else [role user])"

definition get_user_attributes :: "abac_db \<Rightarrow> User \<Rightarrow> error + pydict" where
  "get_user_attributes db user =
     (case username user of
        None \<Rightarrow> Inl AttributeError
      | Some uname \<Rightarrow>
          (let attrs =
                 [(''id'', PInt (user_id user)),
                  (''email'', PStr (email user)),
                  (''username'', PStr uname),
                  (''role'', opt_str (role user)),
                  (''is_active'', PBool (user_is_active user)),
                  (''is_superuser'',
                     (case is_superuser user of None \<Rightarrow> PBool False | Some b \<Rightarrow> PBool b))];
               attrs1 =
                 (case query_user_attribute db user of
                    None \<Rightarrow> attrs
                  | Some ua \<Rightarrow>
                      (let attrs2 = dict_update attrs
                             [(''department_id'', opt_int (department_id ua)),
                              (''division_id'', opt_int (division_id ua)),
                              (''team_id'', opt_int (team_id ua)),
                              (''job_title'', opt_str (job_title ua)),
                              (''job_level'', opt_int (job_level ua)),
                              (''approval_limit_amount'', opt_int (approval_limit_amount ua)),
                              (''can_approve_own_department'',
                                 opt_bool (can_approve_own_department ua)),
                              (''can_approve_all_departments'',
                                 opt_bool (can_approve_all_departments ua)),
                              (''office_location'', opt_str (office_location ua)),
                              (''country_code'', opt_str (country_code ua))]
                       in if truthy_list (custom_attributes ua)
                          then dict_update attrs2 (the (custom_attributes ua))
                          else attrs2))
           in (case roles user of
                 None \<Rightarrow> Inr attrs1
               | Some rs \<Rightarrow> Inr ((''roles'', PList (map PStr rs)) # attrs1))))"

fun parse_attribute_value :: "py_builtins \<Rightarrow> string option \<Rightarrow> string \<Rightarrow> error + pyval" where
  "parse_attribute_value B v value_type =
     (if value_type = ''number'' then
        (case v of
           None \<Rightarrow> Inl TypeError
         | Some s \<Rightarrow> (case float_of_str B s of None \<Rightarrow> Inr (PStr s) | Some f \<Rightarrow> Inr (PFloat f)))
      else if value_type = ''boolean'' then
        (case v of
           None \<Rightarrow> Inl AttributeError
         | Some s \<Rightarrow> Inr (PBool (py_lower s \<in> set [''true'', ''1'', ''yes''])))
      else if value_type = ''json'' then
        (case v of
           None \<Rightarrow> Inl TypeError
         | Some s \<Rightarrow> (case json_loads B s of None \<Rightarrow> Inr (PStr s) | Some j \<Rightarrow> Inr j))
      else Inr (opt_str v))"

text \<open>The loop over the attribute names copied from a resource object.\<close>

fun copy_common :: "pydict \<Rightarrow> string list \<Rightarrow> pydict \<Rightarrow> pydict" where
  "copy_common obj [] attrs = attrs"
| "copy_common obj (n # ns) attrs =
     (case map_of obj n of
        None \<Rightarrow> copy_common obj ns attrs
      | Some v \<Rightarrow> copy_common obj ns ((n, v) # attrs))"

text \<open>The loop over the dynamic attribute rows.\<close>

fun load_dynamic :: "py_builtins \<Rightarrow> ResourceAttribute list \<Rightarrow> pydict \<Rightarrow> error + pydict" where
  "load_dynamic B [] attrs = Inr attrs"
| "load_dynamic B (a # as) attrs =
     (case parse_attribute_value B (attribute_value a) (attribute_type a) of
        Inl e \<Rightarrow> Inl e
      | Inr v \<Rightarrow> load_dynamic B as ((attribute_name a, v) # attrs))"

text \<open>
  A resource object is given by its attributes; an object is truthy. A resource id is
  truthy when it is neither None nor 0.
\<close>

definition get_resource_attributes ::
  "py_builtins \<Rightarrow> abac_db \<Rightarrow> string \<Rightarrow> int option \<Rightarrow> pydict option \<Rightarrow> error + pydict" where
  "get_resource_attributes B db rtype rid robj =
     (let attrs = [(''type'', PStr rtype), (''id'', opt_int rid)];
          attrs1 =
            (case robj of
               None \<Rightarrow> attrs
             | Some obj \<Rightarrow>
                 copy_common obj
                   [''status'', ''amount'', ''total_amount'', ''created_by'',
                    ''department_id'', ''division_id'', ''created_at'',
                    ''priority'', ''category'', ''assigned_to'']
                   attrs)
      in (case rid of
            None \<Rightarrow> Inr attrs1
          | Some i \<Rightarrow>
              if i = 0 then Inr attrs1
              else load_dynamic B
                     (filter (\<lambda>a. ra_resource_type a = rtype \<and> ra_resource_id a = i)
                        (resource_attributes db))
                     attrs1))"

definition get_environment_attributes :: "clock \<Rightarrow> pydict option \<Rightarrow> pydict" where
  "get_environment_attributes now context =
     (let attrs =
            [(''current_time'', PStr (current_time now)),
             (''current_date'', PStr (current_date now)),
             (''current_hour'', PInt (current_hour now)),
             (''current_day_of_week'', PStr (current_day_of_week now)),
             (''current_month'', PInt (current_month now)),
             (''current_year'', PInt (current_year now))]
      in if truthy_list context
         then dict_update attrs
                [(''ip_address'', dict_get (the context) ''ip_address'' PNone),
                 (''user_agent'', dict_get (the context) ''user_agent'' PNone),
                 (''endpoint'', dict_get (the context) ''endpoint'' PNone)]
         else attrs)"

section \<open>The condition evaluator\<close>

text \<open>
  The loop of \<^verbatim>\<open>_get_attribute_value\<close> over \<^verbatim>\<open>parts[1:]\<close>: a dictionary is read with
  \<^verbatim>\<open>obj.get(part)\<close>, any other value with \<^verbatim>\<open>getattr(obj, part, None)\<close>, and the walk
  stops with None at the first None.
\<close>

fun navigate :: "py_builtins \<Rightarrow> pyval \<Rightarrow> string list \<Rightarrow> pyval" where
  "navigate B obj [] = obj"
| "navigate B obj (part # parts) =
     (let obj' = (case obj of PDict d \<Rightarrow> dict_get d part PNone | _ \<Rightarrow> getattr_of B obj part)
      in if obj' = PNone then PNone else navigate B obj' parts)"

text \<open>
  \<^verbatim>\<open>_get_attribute_value\<close>. Its first statement is \<^verbatim>\<open>path.split(".")\<close>, outside any
  \<^verbatim>\<open>try\<close>: a path that is not a string (None when the condition has no
  \<^verbatim>\<open>"attribute"\<close> key) raises AttributeError.
\<close>

fun get_attribute_value ::
  "py_builtins \<Rightarrow> pyval \<Rightarrow> pydict \<Rightarrow> pydict \<Rightarrow> pydict \<Rightarrow> error + pyval" where
  "get_attribute_value B (PStr path) user_attrs resource_attrs env_attrs =
     (let parts = split_dot path
      in if hd parts = ''user'' then Inr (navigate B (PDict user_attrs) (tl parts))
         else if hd parts = ''resource'' then Inr (navigate B (PDict resource_attrs) (tl parts))
         else if hd parts = ''environment'' then Inr (navigate B (PDict env_attrs) (tl parts))
         else Inr PNone)"
| "get_attribute_value B path user_attrs resource_attrs env_attrs = Inl AttributeError"

text \<open>
  The group of \<^verbatim>\<open>re.match(r"\{\{(.+?)\}\}", reference)\<close>: after the two opening braces,
  the shortest non-empty run of characters other than a newline that is followed by two
  closing braces.
\<close>

fun ref_scan :: "string \<Rightarrow> string \<Rightarrow> string option" where
  "ref_scan acc [] = None"
| "ref_scan acc (c # cs) =
     (if acc \<noteq> [] \<and> prefix ''}}'' (c # cs) then Some acc
      else if c = CHR 0x0A then None
      else ref_scan (acc @ [c]) cs)"

definition ref_group :: "string \<Rightarrow> string option" where
  "ref_group reference =
     (if prefix ''{{'' reference then ref_scan [] (drop 2 reference) else None)"

definition resolve_reference ::
  "py_builtins \<Rightarrow> string \<Rightarrow> pydict \<Rightarrow> pydict \<Rightarrow> pydict \<Rightarrow> error + pyval" where
  "resolve_reference B reference user_attrs resource_attrs env_attrs =
     (case ref_group reference of
        None \<Rightarrow> Inr (PStr reference)
      | Some g \<Rightarrow>
          get_attribute_value B (PStr (py_strip g)) user_attrs resource_attrs env_attrs)"

text \<open>
  The body of the \<^verbatim>\<open>try\<close> in \<^verbatim>\<open>_apply_operator\<close>. In a comparison
  \<^verbatim>\<open>float(actual) > float(expected)\<close> the left coercion runs first; the chained
  comparison of \<^verbatim>\<open>between\<close> coerces the upper bound only when the lower test holds.
\<close>

definition float_cmp ::
  "py_builtins \<Rightarrow> (pyfloat \<Rightarrow> pyfloat \<Rightarrow> bool) \<Rightarrow> pyval \<Rightarrow> pyval \<Rightarrow> error + bool" where
  "float_cmp B rel x y =
     (case py_float B x of
        Inl e \<Rightarrow> Inl e
      | Inr a \<Rightarrow> (case py_float B y of Inl e \<Rightarrow> Inl e | Inr b \<Rightarrow> Inr (rel a b)))"

definition apply_operator_body :: "py_builtins \<Rightarrow> pyval \<Rightarrow> pyval \<Rightarrow> pyval \<Rightarrow> error + bool" where
  "apply_operator_body B operator actual expected =
     (if operator = PStr ''eq'' then Inr (py_equal B actual expected)
      else if operator = PStr ''ne'' then Inr (\<not> py_equal B actual expected)
      else if operator = PStr ''gt'' then float_cmp B (\<lambda>a b. float_lt b a) actual expected
      else if operator = PStr ''gte'' then float_cmp B (\<lambda>a b. float_le b a) actual expected
      else if operator = PStr ''lt'' then float_cmp B float_lt actual expected
      else if operator = PStr ''lte'' then float_cmp B float_le actual expected
      else if operator = PStr ''in'' then
        (case expected of
           PList xs \<Rightarrow> Inr (list_ex (\<lambda>x. py_equal B actual x) xs)
         | _ \<Rightarrow> Inr False)
      else if operator = PStr ''not_in'' then
        (case expected of
           PList xs \<Rightarrow> Inr (\<not> list_ex (\<lambda>x. py_equal B actual x) xs)
         | _ \<Rightarrow> Inr True)
      else if operator = PStr ''contains'' then
        Inr (sublist (str_of B expected) (str_of B actual))
      else if operator = PStr ''starts_with'' then
        Inr (prefix (str_of B expected) (str_of B actual))
      else if operator = PStr ''ends_with'' then
        Inr (suffix (str_of B expected) (str_of B actual))
      else if operator = PStr ''between'' then
        (case expected of
           PList [lo, hi] \<Rightarrow>
             (case float_cmp B float_le lo actual of
                Inl e \<Rightarrow> Inl e
              | Inr False \<Rightarrow> Inr False
              | Inr True \<Rightarrow> float_cmp B float_le actual hi)
         | _ \<Rightarrow> Inr False)
      else if operator = PStr ''is_null'' then Inr (actual = PNone)
      else if operator = PStr ''is_not_null'' then Inr (actual \<noteq> PNone)
      else Inr False)"

text \<open>\<^verbatim>\<open>except (ValueError, TypeError, AttributeError): return False\<close>\<close>

definition apply_operator :: "py_builtins \<Rightarrow> pyval \<Rightarrow> pyval \<Rightarrow> pyval \<Rightarrow> error + bool" where
  "apply_operator B operator actual expected =
     (case apply_operator_body B operator actual expected of
        Inl e \<Rightarrow>
          if e = ValueError \<or> e = TypeError \<or> e = AttributeError then Inr False else Inl e
      | Inr b \<Rightarrow> Inr b)"

definition evaluate_condition ::
  "py_builtins \<Rightarrow> condition \<Rightarrow> pydict \<Rightarrow> pydict \<Rightarrow> pydict \<Rightarrow> error + bool" where
  "evaluate_condition B cond user_attrs resource_attrs env_attrs =
     (let attribute_path = dict_get cond ''attribute'' PNone;
          operator = dict_get cond ''operator'' (PStr ''eq'');
          expected_value = dict_get cond ''value'' PNone
      in (case get_attribute_value B attribute_path user_attrs resource_attrs env_attrs of
            Inl e \<Rightarrow> Inl e
          | Inr actual_value \<Rightarrow>
              (case (case expected_value of
                       PStr s \<Rightarrow>
                         if prefix ''{{'' s
                         then resolve_reference B s user_attrs resource_attrs env_attrs
                         else Inr expected_value
                     | _ \<Rightarrow> Inr expected_value) of
                 Inl e \<Rightarrow> Inl e
               | Inr expected \<Rightarrow> apply_operator B operator actual_value expected)))"

text \<open>
  \<^verbatim>\<open>all(...)\<close> and \<^verbatim>\<open>any(...)\<close> over a generator: they stop at the first False (True),
  and an exception raised by a condition they reach goes through.
\<close>

fun all_conditions :: "(condition \<Rightarrow> error + bool) \<Rightarrow> condition list \<Rightarrow> error + bool" where
  "all_conditions ev [] = Inr True"
| "all_conditions ev (c # cs) =
     (case ev c of
        Inl e \<Rightarrow> Inl e
      | Inr b \<Rightarrow> if b then all_conditions ev cs else Inr False)"

fun any_condition :: "(condition \<Rightarrow> error + bool) \<Rightarrow> condition list \<Rightarrow> error + bool" where
  "any_condition ev [] = Inr False"
| "any_condition ev (c # cs) =
     (case ev c of
        Inl e \<Rightarrow> Inl e
      | Inr b \<Rightarrow> if b then Inr True else any_condition ev cs)"

definition evaluate_policy ::
  "py_builtins \<Rightarrow> ABACPolicy \<Rightarrow> pydict \<Rightarrow> pydict \<Rightarrow> pydict \<Rightarrow> error + bool" where
  "evaluate_policy B policy user_attrs resource_attrs env_attrs =
     (if \<not> truthy_list (conditions policy) then Inr True
      else
        (let conds = the (conditions policy);
             ev = (\<lambda>c. evaluate_condition B c user_attrs resource_attrs env_attrs)
         in (case map_of conds ''all'' of
               Some cs \<Rightarrow> all_conditions ev cs
             | None \<Rightarrow>
                 (case map_of conds ''any'' of
                    Some cs \<Rightarrow> any_condition ev cs
                  | None \<Rightarrow>
                      (case map_of conds ''none'' of
                         Some cs \<Rightarrow>
                           (case any_condition ev cs of Inl e \<Rightarrow> Inl e | Inr b \<Rightarrow> Inr (\<not> b))
                       | None \<Rightarrow> Inr False)))))"

section \<open>The policy matcher\<close>

text \<open>
  The query of \<^verbatim>\<open>_get_applicable_policies\<close>:
  \<^verbatim>\<open>filter(is_active == True, action == action, resource_type == resource_type)\<close>.
\<close>

definition policy_selected :: "string \<Rightarrow> string \<Rightarrow> ABACPolicy \<Rightarrow> bool" where
  "policy_selected act rtype p = (is_active p \<and> action p = act \<and> resource_type p = rtype)"

text \<open>\<^verbatim>\<open>x in xs\<close> for a nullable column \<open>x\<close> and a JSON list \<open>xs\<close> of non-null values.\<close>

fun opt_in :: "'a option \<Rightarrow> 'a list \<Rightarrow> bool" where
  "opt_in None xs = False"
| "opt_in (Some x) xs = (x \<in> set xs)"

text \<open>\<^verbatim>\<open>any(role in names for role in user_roles)\<close>\<close>

definition any_role_in :: "string option list \<Rightarrow> string list \<Rightarrow> bool" where
  "any_role_in uroles names = list_ex (\<lambda>r. opt_in r names) uroles"

text \<open>
  The body of the loop over the selected policies: False where the source says
  \<^verbatim>\<open>continue\<close>, True where it reaches \<^verbatim>\<open>applicable.append(policy)\<close>.
\<close>

definition policy_applies :: "UserAttribute option \<Rightarrow> string option list \<Rightarrow> ABACPolicy \<Rightarrow> bool" where
  "policy_applies user_attr uroles p =
     (if truthy_list (role_requirements p) \<and>
         \<not> any_role_in uroles (the (role_requirements p))
      then False
      else if truthy_list (department_ids p) \<and> user_attr \<noteq> None \<and>
              \<not> opt_in (department_id (the user_attr)) (the (department_ids p))
      then False
      else if truthy_list (division_ids p) \<and> user_attr \<noteq> None \<and>
              \<not> opt_in (division_id (the user_attr)) (the (division_ids p))
      then False
      else True)"

definition get_applicable_policies :: "abac_db \<Rightarrow> string \<Rightarrow> string \<Rightarrow> User \<Rightarrow> ABACPolicy list" where
  "get_applicable_policies db act rtype user =
     filter (policy_applies (query_user_attribute db user) (user_roles user))
       (filter (policy_selected act rtype) (abac_policies db))"

section \<open>The decision engine\<close>

text \<open>The variables the loop of \<^verbatim>\<open>check_access\<close> updates.\<close>

record decision_state =
  evaluated_policy_ids :: "int list"
  decision :: string
  reason :: string
  applied_policy :: "ABACPolicy option"

fun effect_value :: "PolicyEffect \<Rightarrow> string" where
  "effect_value allow = ''allow''"
| "effect_value deny = ''deny''"

definition matched_reason :: "ABACPolicy \<Rightarrow> string" where
  "matched_reason p = ''Policy '' @ [CHR 0x27] @ name p @ [CHR 0x27] @ '' matched''"

text \<open>
  The loop over the sorted candidates. \<open>ev\<close> is \<^verbatim>\<open>_evaluate_policy\<close> at the gathered
  attributes. A matching policy overwrites decision, reason and applied policy; the
  loop breaks at a matching DENY and goes on after a matching ALLOW.
\<close>

fun evaluate_loop ::
  "(ABACPolicy \<Rightarrow> error + bool) \<Rightarrow> ABACPolicy list \<Rightarrow> decision_state \<Rightarrow> error + decision_state" where
  "evaluate_loop ev [] st = Inr st"
| "evaluate_loop ev (p # ps) st =
     (let st1 = st\<lparr>evaluated_policy_ids := evaluated_policy_ids st @ [policy_id p]\<rparr>
      in (case ev p of
            Inl e \<Rightarrow> Inl e
          | Inr matched \<Rightarrow>
              if matched then
                (let st2 = st1\<lparr>decision := effect_value (effect p),
                                reason := matched_reason p,
                                applied_policy := Some p\<rparr>
                 in if effect p = deny then Inr st2 else evaluate_loop ev ps st2)
              else evaluate_loop ev ps st1))"

definition initial_state :: decision_state where
  "initial_state =
     \<lparr>evaluated_policy_ids = [], decision = ''deny'',
      reason = ''No matching policy found'', applied_policy = None\<rparr>"

text \<open>\<^verbatim>\<open>sorted(policies, key=lambda p: p.priority, reverse=True)\<close>: a stable sort.\<close>

definition sort_by_priority :: "ABACPolicy list \<Rightarrow> ABACPolicy list" where
  "sort_by_priority ps = sort_key (\<lambda>p. - priority p) ps"

definition log_access ::
  "abac_db \<Rightarrow> User \<Rightarrow> string \<Rightarrow> string \<Rightarrow> int option \<Rightarrow> decision_state \<Rightarrow>
   pydict \<Rightarrow> pydict \<Rightarrow> pydict \<Rightarrow> int \<Rightarrow> pydict option \<Rightarrow> abac_db" where
  "log_access db user act rtype rid st user_attrs resource_attrs env_attrs ms context =
     db\<lparr>abac_access_logs := abac_access_logs db @
        [\<lparr>log_user_id = user_id user,
          log_action = act,
          log_resource_type = rtype,
          log_resource_id = rid,
          log_decision = decision st,
          log_policy_id = map_option policy_id (applied_policy st),
          log_user_attributes = user_attrs,
          log_resource_attributes = resource_attrs,
          log_environment_attributes = env_attrs,
          log_evaluated_policies = evaluated_policy_ids st,
          log_evaluation_time_ms = ms,
          log_reason = reason st,
          log_ip_address =
            (if truthy_list context then dict_get (the context) ''ip_address'' PNone else PNone),
          log_user_agent =
            (if truthy_list context then dict_get (the context) ''user_agent'' PNone else PNone),
          log_endpoint =
            (if truthy_list context then dict_get (the context) ''endpoint'' PNone else PNone)\<rparr>]\<rparr>"

text \<open>
  \<^verbatim>\<open>check_access\<close> returns the triple (allowed, reason, applied policy), here together
  with the database after the audit row is written.
\<close>

definition check_access ::
  "py_builtins \<Rightarrow> clock \<Rightarrow> abac_db \<Rightarrow> User \<Rightarrow> string \<Rightarrow> string \<Rightarrow> int option \<Rightarrow>
   pydict option \<Rightarrow> pydict option \<Rightarrow> error + ((bool \<times> string \<times> ABACPolicy option) \<times> abac_db)" where
  "check_access B now db user act rtype rid robj context =
     (case get_user_attributes db user of
        Inl e \<Rightarrow> Inl e
      | Inr user_attrs \<Rightarrow>
          (case get_resource_attributes B db rtype rid robj of
             Inl e \<Rightarrow> Inl e
           | Inr resource_attrs \<Rightarrow>
               (let env_attrs = get_environment_attributes now context;
                    policies = get_applicable_policies db act rtype user
                in (case evaluate_loop
                           (\<lambda>p. evaluate_policy B p user_attrs resource_attrs env_attrs)
                           (sort_by_priority policies) initial_state of
                      Inl e \<Rightarrow> Inl e
                    | Inr st \<Rightarrow>
                        Inr ((decision st = ''allow'', reason st, applied_policy st),
                             log_access db user act rtype rid st user_attrs resource_attrs
                               env_attrs (evaluation_time_ms now) context)))))"

section \<open>The workflow data model (\<^verbatim>\<open>app/models/workflow.py\<close>, \<^verbatim>\<open>app/schemas/workflow.py\<close>)\<close>

datatype WorkflowStatus =
  draft | active | pending | approved | rejected | completed | archived

datatype NodeType =
    node_start
  | node_approval
  | node_condition
  | node_parallel
  | node_end
  | node_notification
  | node_action

datatype ApprovalType = sequential | parallel_all | parallel_any | parallel_majority

text \<open>
  The graph document, with the types of \<^verbatim>\<open>ReactFlowNode\<close>, \<^verbatim>\<open>ReactFlowEdge\<close> and
  \<^verbatim>\<open>WorkflowGraphCreate\<close>. A key that the service reads with \<^verbatim>\<open>d[k]\<close>, \<^verbatim>\<open>d.get(k)\<close>
  or \<^verbatim>\<open>k in d\<close> is optional here: \<open>None\<close> is a document without the key. The values
  under \<^verbatim>\<open>data\<close> and \<^verbatim>\<open>position\<close> are JSON values: the key may hold null
  (\<open>Some PNone\<close>) as well as an object.
\<close>

record graph_node =
  n_id :: "string option"
  n_type :: "string option"
  n_position :: "pyval option"
  n_data :: "pyval option"

record graph_edge =
  e_source :: "string option"
  e_target :: "string option"
  e_data :: "pyval option"

record workflow_graph =
  g_name :: "string option"
  g_description :: "string option"
  g_model_name :: "string option"
  g_nodes :: "graph_node list option"
  g_edges :: "graph_edge list option"

record WorkflowDefinition =
  wf_id :: int
  wf_name :: string
  wf_description :: "string option"
  wf_model_name :: string
  wf_graph :: "workflow_graph option"
  wf_version :: int
  wf_status :: WorkflowStatus
  wf_created_by :: "int option"
  can_view_roles :: "string list option"
  can_edit_roles :: "string list option"
  can_use_roles :: "string list option"
  wf_updated_at :: "int option"
  wf_published_at :: "int option"

record WorkflowVersion =
  ver_workflow_id :: int
  version_number :: int
  ver_graph :: "workflow_graph option"
  change_description :: "string option"
  ver_created_by :: int

record WorkflowStage =
  st_id :: int
  st_workflow_id :: int
  node_id :: string
  node_type :: NodeType
  st_name :: pyval
  order_index :: nat
  required_role :: pyval
  required_roles :: pyval
  specific_users :: pyval
  approval_type :: ApprovalType
  required_approvals_count :: pyval
  st_condition_field :: pyval
  st_condition_operator :: pyval
  st_condition_value :: pyval
  sla_hours :: pyval
  escalation_role :: pyval
  escalation_user_id :: pyval
  auto_escalate :: pyval
  notification_template :: pyval
  custom_action :: pyval
  position_x :: pyval
  position_y :: pyval
  next_stage_id :: "int option"

record ConditionalRoute =
  from_stage_id :: int
  to_stage_id :: int
  condition_label :: pyval
  rt_condition_field :: pyval
  rt_operator :: pyval
  rt_condition_value :: pyval
  rt_priority :: pyval

text \<open>
  The workflow tables, each in insertion order, and the next primary keys. The models
  declare \<^verbatim>\<open>ondelete="CASCADE"\<close> on both stage columns of \<^verbatim>\<open>conditional_routes\<close> and
  \<^verbatim>\<open>ondelete="SET NULL"\<close> on \<^verbatim>\<open>workflow_stages.next_stage_id\<close>; whether the database
  applies them is a setting of the engine (\<^verbatim>\<open>app/core/database.py\<close>, not among the
  sources), kept here as \<open>foreign_keys_enforced\<close>.
\<close>

record workflow_db =
  workflow_definitions :: "WorkflowDefinition list"
  workflow_versions :: "WorkflowVersion list"
  workflow_stages :: "WorkflowStage list"
  conditional_routes :: "ConditionalRoute list"
  next_workflow_id :: int
  next_stage_pk :: int
  foreign_keys_enforced :: bool

section \<open>The visibility gate\<close>

text \<open>\<^verbatim>\<open>VisualWorkflowService._can_edit\<close>\<close>

definition can_edit :: "User \<Rightarrow> WorkflowDefinition \<Rightarrow> bool" where
  "can_edit user workflow =
     (if role user = Some ''admin'' then True
      else if wf_created_by workflow = Some (user_id user) then True
      else if truthy_list (can_edit_roles workflow)
      then any_role_in (user_roles user) (the (can_edit_roles workflow))
      else False)"

text \<open>\<^verbatim>\<open>WorkflowPermissions.can_publish_workflow\<close> of \<^verbatim>\<open>app/core/permissions.py\<close>\<close>

definition can_publish_workflow :: "User \<Rightarrow> WorkflowDefinition \<Rightarrow> bool" where
  "can_publish_workflow user workflow =
     (if role user = Some ''admin'' then True
      else if wf_created_by workflow = Some (user_id user) \<and>
              any_role_in (user_roles user) [''manager'', ''supervisor'', ''department_head'']
      then True
      else False)"

section \<open>Graph validation\<close>

text \<open>\<^verbatim>\<open>VisualWorkflowService._validate_graph\<close>: it returns nothing or raises 400.\<close>

definition validate_graph :: "workflow_graph \<Rightarrow> error + unit" where
  "validate_graph graph_data =
     (if g_nodes graph_data = None \<or> g_edges graph_data = None then Inl (HTTPException 400)
      else
        (let nodes = the (g_nodes graph_data)
         in if nodes = [] then Inl (HTTPException 400)
            else if \<not> list_ex (\<lambda>n. n_type n = Some ''start'') nodes then Inl (HTTPException 400)
            else Inr ()))"

section \<open>The stage compiler\<close>

text \<open>Truthiness of a JSON value.\<close>

fun py_truthy :: "pyval \<Rightarrow> bool" where
  "py_truthy PNone = False"
| "py_truthy (PBool b) = b"
| "py_truthy (PInt i) = (i \<noteq> 0)"
| "py_truthy (PFloat f) = (f \<noteq> Finite 0)"
| "py_truthy (PStr s) = (s \<noteq> [])"
| "py_truthy (PList xs) = (xs \<noteq> [])"
| "py_truthy (PDict d) = (d \<noteq> [])"
| "py_truthy (PObj n) = True"

text \<open>The decimal digits of a natural number, for \<^verbatim>\<open>f'Stage {idx + 1}'\<close>.\<close>

fun show_nat :: "nat \<Rightarrow> string" where
  "show_nat n =
     (if n < 10 then [char_of (48 + n)]
      else show_nat (n div 10) @ [char_of (48 + n mod 10)])"

text \<open>
  \<^verbatim>\<open>NodeType(node_type) if node_type in NodeType.__members__ else NodeType.approval\<close>
\<close>

definition parse_node_type :: "string \<Rightarrow> NodeType" where
  "parse_node_type s =
     (if s = ''start'' then node_start
      else if s = ''approval'' then node_approval
      else if s = ''condition'' then node_condition
      else if s = ''parallel'' then node_parallel
      else if s = ''end'' then node_end
      else if s = ''notification'' then node_notification
      else if s = ''action'' then node_action
      else node_approval)"

text \<open>\<^verbatim>\<open>ApprovalType(value)\<close>: the member with this value, or ValueError.\<close>

definition parse_approval_type :: "pyval \<Rightarrow> error + ApprovalType" where
  "parse_approval_type v =
     (if v = PStr ''sequential'' then Inr sequential
      else if v = PStr ''parallel_all'' then Inr parallel_all
      else if v = PStr ''parallel_any'' then Inr parallel_any
      else if v = PStr ''parallel_majority'' then Inr parallel_majority
      else Inl ValueError)"

text \<open>
  \<^verbatim>\<open>node.get(key, {})\<close> as the receiver of a later \<^verbatim>\<open>.get\<close>: the object under the key,
  the empty object when the key is absent, AttributeError when the key holds anything
  but an object.
\<close>

fun as_object :: "pyval option \<Rightarrow> error + pydict" where
  "as_object None = Inr []"
| "as_object (Some (PDict d)) = Inr d"
| "as_object (Some v) = Inl AttributeError"

text \<open>
  The call \<^verbatim>\<open>WorkflowStage(...)\<close> of the loop over the nodes, once its arguments are
  there: the node id, the node type (if the key is present), the \<^verbatim>\<open>data\<close> object, the
  approval type and the \<^verbatim>\<open>position\<close> object.
\<close>

definition build_stage ::
  "int \<Rightarrow> int \<Rightarrow> nat \<Rightarrow> string \<Rightarrow> string option \<Rightarrow> pydict \<Rightarrow> ApprovalType \<Rightarrow> pydict \<Rightarrow>
   WorkflowStage" where
  "build_stage wid pk idx nid ntype node_data atype pos =
     \<lparr>st_id = pk,
      st_workflow_id = wid,
      node_id = nid,
      node_type = parse_node_type (case ntype of None \<Rightarrow> ''approval'' | Some t \<Rightarrow> t),
      st_name = dict_get node_data ''label'' (PStr (''Stage '' @ show_nat (idx + 1))),
      order_index = idx,
      required_role = dict_get node_data ''required_role'' PNone,
      required_roles = dict_get node_data ''required_roles'' PNone,
      specific_users = dict_get node_data ''specific_users'' PNone,
      approval_type = atype,
      required_approvals_count = dict_get node_data ''required_approvals_count'' PNone,
      st_condition_field = dict_get node_data ''condition_field'' PNone,
      st_condition_operator = dict_get node_data ''condition_operator'' PNone,
      st_condition_value = dict_get node_data ''condition_value'' PNone,
      sla_hours = dict_get node_data ''sla_hours'' PNone,
      escalation_role = dict_get node_data ''escalation_role'' PNone,
      escalation_user_id = dict_get node_data ''escalation_user_id'' PNone,
      auto_escalate = dict_get node_data ''auto_escalate'' (PBool False),
      notification_template = dict_get node_data ''notification_template'' PNone,
      custom_action = dict_get node_data ''custom_action'' PNone,
      position_x = dict_get pos ''x'' PNone,
      position_y = dict_get pos ''y'' PNone,
      next_stage_id = None\<rparr>"

text \<open>
  One round of the loop over the nodes up to \<^verbatim>\<open>db.flush()\<close>: the stage built from the
  node at position \<open>idx\<close>, with primary key \<open>pk\<close>. \<^verbatim>\<open>node['id']\<close> needs the key. The
  keyword arguments are evaluated in the order written, so a \<^verbatim>\<open>data\<close> that is not an
  object fails first, then the approval type, then the position; the flush refuses a
  null \<^verbatim>\<open>name\<close>.
\<close>

definition make_stage :: "int \<Rightarrow> int \<Rightarrow> nat \<Rightarrow> graph_node \<Rightarrow> error + WorkflowStage" where
  "make_stage wid pk idx node =
     (case n_id node of
        None \<Rightarrow> Inl KeyError
      | Some nid \<Rightarrow>
          (case as_object (n_data node) of
             Inl e \<Rightarrow> Inl e
           | Inr node_data \<Rightarrow>
               (case parse_approval_type
                       (dict_get node_data ''approval_type'' (PStr ''sequential'')) of
                  Inl e \<Rightarrow> Inl e
                | Inr atype \<Rightarrow>
                    (case as_object (n_position node) of
                       Inl e \<Rightarrow> Inl e
                     | Inr pos \<Rightarrow>
                         (let stage = build_stage wid pk idx nid (n_type node) node_data
                                        atype pos
                          in if st_name stage = PNone then Inl IntegrityError
                             else Inr stage)))))"

text \<open>
  The loop over the nodes. \<open>m\<close> is \<^verbatim>\<open>node_to_stage\<close>, from node id to the primary key of
  its stage; a later node with the same id replaces the binding.
\<close>

fun create_stages ::
  "int \<Rightarrow> nat \<Rightarrow> graph_node list \<Rightarrow> workflow_db \<Rightarrow> (string \<times> int) list \<Rightarrow>
   error + (workflow_db \<times> (string \<times> int) list)" where
  "create_stages wid idx [] db m = Inr (db, m)"
| "create_stages wid idx (node # nodes) db m =
     (case make_stage wid (next_stage_pk db) idx node of
        Inl e \<Rightarrow> Inl e
      | Inr stage \<Rightarrow>
          create_stages wid (Suc idx) nodes
            (db\<lparr>workflow_stages := workflow_stages db @ [stage],
                next_stage_pk := next_stage_pk db + 1\<rparr>)
            ((node_id stage, st_id stage) # m))"

text \<open>\<^verbatim>\<open>source_stage.next_stage_id\<close> of the stage with primary key \<open>pk\<close>, read and written.\<close>

definition stage_next :: "workflow_db \<Rightarrow> int \<Rightarrow> int option" where
  "stage_next db pk =
     (case find (\<lambda>s. st_id s = pk) (workflow_stages db) of
        None \<Rightarrow> None
      | Some s \<Rightarrow> next_stage_id s)"

definition set_stage_next :: "workflow_db \<Rightarrow> int \<Rightarrow> int \<Rightarrow> workflow_db" where
  "set_stage_next db pk tgt =
     db\<lparr>workflow_stages :=
          map (\<lambda>s. if st_id s = pk then s\<lparr>next_stage_id := Some tgt\<rparr> else s)
            (workflow_stages db)\<rparr>"

definition make_route :: "int \<Rightarrow> int \<Rightarrow> pydict \<Rightarrow> ConditionalRoute" where
  "make_route src tgt edge_data =
     \<lparr>from_stage_id = src,
      to_stage_id = tgt,
      condition_label = dict_get edge_data ''label'' PNone,
      rt_condition_field = dict_get edge_data ''condition_field'' PNone,
      rt_operator = dict_get edge_data ''operator'' PNone,
      rt_condition_value = dict_get edge_data ''condition_value'' PNone,
      rt_priority = dict_get edge_data ''priority'' (PInt 0)\<rparr>"

text \<open>
  The loop over the edges. An edge with an endpoint that is no node of the graph is
  skipped (\<^verbatim>\<open>continue\<close>).
\<close>

fun connect_edges ::
  "(string \<times> int) list \<Rightarrow> graph_edge list \<Rightarrow> workflow_db \<Rightarrow> error + workflow_db" where
  "connect_edges m [] db = Inr db"
| "connect_edges m (edge # edges) db =
     (case e_source edge of
        None \<Rightarrow> Inl KeyError
      | Some source_id \<Rightarrow>
          (case e_target edge of
             None \<Rightarrow> Inl KeyError
           | Some target_id \<Rightarrow>
               (case map_of m source_id of
                  None \<Rightarrow> connect_edges m edges db
                | Some src \<Rightarrow>
                    (case map_of m target_id of
                       None \<Rightarrow> connect_edges m edges db
                     | Some tgt \<Rightarrow>
                         (case as_object (e_data edge) of
                            Inl e \<Rightarrow> Inl e
                          | Inr edge_data \<Rightarrow>
                              if py_truthy (dict_get edge_data ''condition'' PNone)
                              then connect_edges m edges
                                     (db\<lparr>conditional_routes :=
                                          conditional_routes db @
                                            [make_route src tgt edge_data]\<rparr>)
                              else if stage_next db src = None \<or> stage_next db src = Some 0
                              then connect_edges m edges (set_stage_next db src tgt)
                              else connect_edges m edges db)))))"

text \<open>
  \<^verbatim>\<open>db.query(WorkflowStage).filter_by(workflow_id=...).delete()\<close>: the rows go, and with
  them, where the database enforces the declared foreign keys, the routes that point at
  them and the \<^verbatim>\<open>next_stage_id\<close> links to them.
\<close>

definition stage_ids_of :: "workflow_db \<Rightarrow> int \<Rightarrow> int list" where
  "stage_ids_of db wid = map st_id (filter (\<lambda>s. st_workflow_id s = wid) (workflow_stages db))"

definition delete_stages :: "workflow_db \<Rightarrow> int \<Rightarrow> workflow_db" where
  "delete_stages db wid =
     (let gone = stage_ids_of db wid;
          kept = filter (\<lambda>s. st_workflow_id s \<noteq> wid) (workflow_stages db)
      in if foreign_keys_enforced db
         then db\<lparr>workflow_stages :=
                   map (\<lambda>s. if opt_in (next_stage_id s) gone
                             then s\<lparr>next_stage_id := None\<rparr> else s) kept,
                 conditional_routes :=
                   filter (\<lambda>r. from_stage_id r \<notin> set gone \<and> to_stage_id r \<notin> set gone)
                     (conditional_routes db)\<rparr>
         else db\<lparr>workflow_stages := kept\<rparr>)"

text \<open>
  The second statement of \<^verbatim>\<open>_sync_stages_from_graph\<close>: delete the routes whose
  \<^verbatim>\<open>from_stage_id\<close> is in the result of the subquery for the stage ids of the workflow,
  run on the table as it is at that moment.
\<close>

definition delete_routes :: "workflow_db \<Rightarrow> int \<Rightarrow> workflow_db" where
  "delete_routes db wid =
     db\<lparr>conditional_routes :=
          filter (\<lambda>r. from_stage_id r \<notin> set (stage_ids_of db wid)) (conditional_routes db)\<rparr>"

definition sync_stages_from_graph ::
  "workflow_db \<Rightarrow> WorkflowDefinition \<Rightarrow> workflow_graph \<Rightarrow> error + workflow_db" where
  "sync_stages_from_graph db workflow graph_data =
     (let db1 = delete_stages db (wf_id workflow);
          db2 = delete_routes db1 (wf_id workflow);
          nodes = (case g_nodes graph_data of None \<Rightarrow> [] | Some ns \<Rightarrow> ns);
          edges = (case g_edges graph_data of None \<Rightarrow> [] | Some es \<Rightarrow> es)
      in (case create_stages (wf_id workflow) 0 nodes db2 [] of
            Inl e \<Rightarrow> Inl e
          | Inr (db3, m) \<Rightarrow> connect_edges m edges db3))"

section \<open>Saving and publishing\<close>

text \<open>\<^verbatim>\<open>db.query(WorkflowDefinition).filter_by(id=workflow_id).first()\<close>\<close>

definition query_workflow :: "workflow_db \<Rightarrow> int \<Rightarrow> WorkflowDefinition option" where
  "query_workflow db wid = find (\<lambda>w. wf_id w = wid) (workflow_definitions db)"

text \<open>
  The object a query returned is mutated in place: the first row with its primary key
  is replaced.
\<close>

fun store_workflow :: "WorkflowDefinition \<Rightarrow> WorkflowDefinition list \<Rightarrow> WorkflowDefinition list" where
  "store_workflow w [] = []"
| "store_workflow w (x # xs) = (if wf_id x = wf_id w then w # xs else x # store_workflow w xs)"

text \<open>
  The routes inserted by a save are flushed at \<^verbatim>\<open>db.commit()\<close>; the table refuses a
  null \<^verbatim>\<open>condition_field\<close>, \<^verbatim>\<open>operator\<close> or \<^verbatim>\<open>condition_value\<close>.
\<close>

definition route_not_null :: "ConditionalRoute \<Rightarrow> bool" where
  "route_not_null r =
     (rt_condition_field r \<noteq> PNone \<and> rt_operator r \<noteq> PNone \<and> rt_condition_value r \<noteq> PNone)"

text \<open>
  The common tail of \<^verbatim>\<open>save_workflow_graph\<close>: compile the stages, commit, return the
  definition. \<open>db\<close> holds the definition already.
\<close>

definition sync_and_commit ::
  "workflow_db \<Rightarrow> WorkflowDefinition \<Rightarrow> workflow_graph \<Rightarrow>
   error + (WorkflowDefinition \<times> workflow_db)" where
  "sync_and_commit db workflow graph_data =
     (case sync_stages_from_graph db workflow graph_data of
        Inl e \<Rightarrow> Inl e
      | Inr db' \<Rightarrow>
          if list_all route_not_null
               (drop (length (conditional_routes
                                (delete_routes (delete_stages db (wf_id workflow))
                                   (wf_id workflow))))
                  (conditional_routes db'))
          then Inr (workflow, db')
          else Inl IntegrityError)"

text \<open>
  \<^verbatim>\<open>save_workflow_graph\<close>. \<open>now\<close> is \<^verbatim>\<open>datetime.utcnow()\<close>. An exception leaves the
  database as it was: nothing is committed before the end. A new definition gets the
  column defaults (version 1) and the flush refuses a name that is taken.
\<close>

definition save_workflow_graph ::
  "workflow_db \<Rightarrow> int option \<Rightarrow> workflow_graph \<Rightarrow> User \<Rightarrow> string option \<Rightarrow> int \<Rightarrow>
   error + (WorkflowDefinition \<times> workflow_db)" where
  "save_workflow_graph db workflow_id graph_data user description now =
     (case validate_graph graph_data of
        Inl e \<Rightarrow> Inl e
      | Inr u \<Rightarrow>
          if workflow_id \<noteq> None \<and> workflow_id \<noteq> Some 0 then
            (case query_workflow db (the workflow_id) of
               None \<Rightarrow> Inl (HTTPException 404)
             | Some workflow \<Rightarrow>
                 if \<not> can_edit user workflow then Inl (HTTPException 403)
                 else
                   (let db1 = db\<lparr>workflow_versions := workflow_versions db @
                                 [\<lparr>ver_workflow_id = wf_id workflow,
                                   version_number = wf_version workflow,
                                   ver_graph = wf_graph workflow,
                                   change_description = description,
                                   ver_created_by = user_id user\<rparr>]\<rparr>;
                        workflow' = workflow\<lparr>wf_graph := Some graph_data,
                                              wf_version := wf_version workflow + 1,
                                              wf_updated_at := Some now\<rparr>;
                        db2 = db1\<lparr>workflow_definitions :=
                                    store_workflow workflow' (workflow_definitions db1)\<rparr>
                    in sync_and_commit db2 workflow' graph_data))
          else
            (let workflow =
                   \<lparr>wf_id = next_workflow_id db,
                    wf_name = (case g_name graph_data of None \<Rightarrow> ''New Workflow'' | Some n \<Rightarrow> n),
                    wf_description = g_description graph_data,
                    wf_model_name =
                      (case g_model_name graph_data of None \<Rightarrow> ''GenericModel'' | Some n \<Rightarrow> n),
                    wf_graph = Some graph_data,
                    wf_version = 1,
                    wf_status = draft,
                    wf_created_by = Some (user_id user),
                    can_view_roles = None,
                    can_edit_roles = None,
                    can_use_roles = None,
                    wf_updated_at = None,
                    wf_published_at = None\<rparr>
             in if wf_name workflow \<in> set (map wf_name (workflow_definitions db))
                then Inl IntegrityError
                else sync_and_commit
                       (db\<lparr>workflow_definitions := workflow_definitions db @ [workflow],
                           next_workflow_id := next_workflow_id db + 1\<rparr>)
                       workflow graph_data))"

datatype completeness_error = No_stages_defined | Missing_required_approvers pyval

text \<open>\<^verbatim>\<open>_validate_workflow_completeness\<close>\<close>

definition validate_workflow_completeness ::
  "workflow_db \<Rightarrow> WorkflowDefinition \<Rightarrow> completeness_error list" where
  "validate_workflow_completeness db workflow =
     (let stages = filter (\<lambda>s. st_workflow_id s = wf_id workflow) (workflow_stages db)
      in (if stages = [] then [No_stages_defined] else []) @
         map (\<lambda>s. Missing_required_approvers (st_name s))
           (filter (\<lambda>s. node_type s = node_approval \<and> \<not> py_truthy (required_role s) \<and>
                         \<not> py_truthy (required_roles s) \<and> \<not> py_truthy (specific_users s))
              stages))"

text \<open>
  \<^verbatim>\<open>publish_workflow\<close>. The permission test is \<^verbatim>\<open>_can_edit\<close>. The last statement before
  \<^verbatim>\<open>return\<close> formats \<^verbatim>\<open>user.full_name\<close> after the commit, so the outcome comes with the
  database as the call leaves it.
\<close>

definition publish_workflow ::
  "workflow_db \<Rightarrow> int \<Rightarrow> User \<Rightarrow> int \<Rightarrow> (error + WorkflowDefinition) \<times> workflow_db" where
  "publish_workflow db workflow_id user now =
     (case query_workflow db workflow_id of
        None \<Rightarrow> (Inl (HTTPException 404), db)
      | Some workflow \<Rightarrow>
          if \<not> can_edit user workflow then (Inl (HTTPException 403), db)
          else if validate_workflow_completeness db workflow \<noteq> []
          then (Inl (HTTPException 400), db)
          else
            (let workflow' = workflow\<lparr>wf_status := active, wf_published_at := Some now\<rparr>;
                 db' = db\<lparr>workflow_definitions :=
                            store_workflow workflow' (workflow_definitions db)\<rparr>
             in (case full_name user of
                   None \<Rightarrow> (Inl AttributeError, db')
                 | Some n \<Rightarrow> (Inr workflow', db'))))"

section \<open>Matching, and the data of the examples\<close>

text \<open>
  A candidate matches a request when \<^verbatim>\<open>_evaluate_policy\<close> returns True for it at the
  attributes \<^verbatim>\<open>check_access\<close> gathers.
\<close>

definition policy_matches ::
  "py_builtins \<Rightarrow> clock \<Rightarrow> abac_db \<Rightarrow> User \<Rightarrow> string \<Rightarrow> int option \<Rightarrow> pydict option \<Rightarrow>
   pydict option \<Rightarrow> ABACPolicy \<Rightarrow> bool" where
  "policy_matches B now db user rtype rid robj context p =
     (case get_user_attributes db user of
        Inl e \<Rightarrow> False
      | Inr user_attrs \<Rightarrow>
          (case get_resource_attributes B db rtype rid robj of
             Inl e \<Rightarrow> False
           | Inr resource_attrs \<Rightarrow>
               evaluate_policy B p user_attrs resource_attrs
                 (get_environment_attributes now context) = Inr True))"

text \<open>
  Builtins for the examples: integers convert to floats exactly, no string parses as a
  float or as JSON, \<^verbatim>\<open>==\<close> is equality of values, no value has attributes.
\<close>

definition example_builtins :: py_builtins where
  "example_builtins =
     \<lparr>float_of_int = (\<lambda>i. Some (Finite (of_int i))),
      float_of_str = (\<lambda>s. None),
      float_of_obj = (\<lambda>n. Inl TypeError),
      str_of = (\<lambda>v. case v of PStr s \<Rightarrow> s | _ \<Rightarrow> []),
      py_equal = (\<lambda>a b. a = b),
      getattr_of = (\<lambda>v n. PNone),
      json_loads = (\<lambda>s. None)\<rparr>"

definition example_clock :: clock where
  "example_clock =
     \<lparr>current_time = ''2024-01-01T10:00:00'', current_date = ''2024-01-01'',
      current_hour = 10, current_day_of_week = ''Monday'', current_month = 1,
      current_year = 2024, evaluation_time_ms = 0\<rparr>"

definition example_user :: User where
  "example_user =
     \<lparr>user_id = 5, email = ''u5@example.org'', username = Some ''u5'',
      full_name = Some ''User Five'', role = Some ''user'', user_is_active = True,
      is_superuser = None, roles = Some []\<rparr>"

text \<open>
  Two policies of equal priority on (approve, Invoice): an unconditional ALLOW and a
  DENY for the creator of the resource.
\<close>

definition allow_approve :: ABACPolicy where
  "allow_approve =
     \<lparr>policy_id = 1, name = ''allow approve'', effect = allow, priority = 100,
      action = ''approve'', resource_type = ''Invoice'', conditions = None,
      department_ids = None, division_ids = None, role_requirements = None,
      is_active = True\<rparr>"

definition deny_own :: ABACPolicy where
  "deny_own =
     \<lparr>policy_id = 2, name = ''deny own'', effect = deny, priority = 100,
      action = ''approve'', resource_type = ''Invoice'',
      conditions = Some [(''all'',
         [[(''attribute'', PStr ''user.id''), (''operator'', PStr ''eq''),
           (''value'', PStr ''{{resource.created_by}}'')]])],
      department_ids = None, division_ids = None, role_requirements = None,
      is_active = True\<rparr>"

definition approve_db :: abac_db where
  "approve_db =
     \<lparr>abac_policies = [allow_approve, deny_own], user_attributes = [],
      resource_attributes = [], abac_access_logs = []\<rparr>"

text \<open>
  The administrator policy of \<^verbatim>\<open>app/seeds/abac_policies.py\<close> (``Admin - Full Access'':
  action \<^verbatim>\<open>"*"\<close>, resource type \<^verbatim>\<open>"*"\<close>, roles \<^verbatim>\<open>["admin"]\<close>, priority 999) and an
  administrator.
\<close>

definition admin_user :: User where
  "admin_user =
     \<lparr>user_id = 1, email = ''admin@example.org'', username = Some ''admin'',
      full_name = Some ''Admin'', role = Some ''admin'', user_is_active = True,
      is_superuser = None, roles = Some []\<rparr>"

definition admin_full_access :: ABACPolicy where
  "admin_full_access =
     \<lparr>policy_id = 1, name = ''Admin - Full Access'', effect = allow, priority = 999,
      action = ''*'', resource_type = ''*'', conditions = None,
      department_ids = None, division_ids = None, role_requirements = Some [''admin''],
      is_active = True\<rparr>"

definition wildcard_db :: abac_db where
  "wildcard_db =
     \<lparr>abac_policies = [admin_full_access], user_attributes = [],
      resource_attributes = [], abac_access_logs = []\<rparr>"

text \<open>Two unconditional ALLOW policies on (read, invoice), of priority 10 and 5.\<close>

definition allow_high :: ABACPolicy where
  "allow_high =
     \<lparr>policy_id = 1, name = ''read high'', effect = allow, priority = 10,
      action = ''read'', resource_type = ''invoice'', conditions = None,
      department_ids = None, division_ids = None, role_requirements = None,
      is_active = True\<rparr>"

definition allow_low :: ABACPolicy where
  "allow_low =
     \<lparr>policy_id = 2, name = ''read low'', effect = allow, priority = 5,
      action = ''read'', resource_type = ''invoice'', conditions = None,
      department_ids = None, division_ids = None, role_requirements = None,
      is_active = True\<rparr>"

definition priority_db :: abac_db where
  "priority_db =
     \<lparr>abac_policies = [allow_high, allow_low], user_attributes = [],
      resource_attributes = [], abac_access_logs = []\<rparr>"

text \<open>
  A policy scoped to department 1 and one scoped to division 4; a database without
  profiles, and one where user 5 has a profile in department 2 and no division.
\<close>

definition scoped_policy :: ABACPolicy where
  "scoped_policy =
     \<lparr>policy_id = 3, name = ''department 1 reads'', effect = allow, priority = 0,
      action = ''read'', resource_type = ''invoice'', conditions = None,
      department_ids = Some [1], division_ids = None, role_requirements = None,
      is_active = True\<rparr>"

definition division_policy :: ABACPolicy where
  "division_policy =
     \<lparr>policy_id = 4, name = ''division 4 reads'', effect = allow, priority = 0,
      action = ''read'', resource_type = ''invoice'', conditions = None,
      department_ids = None, division_ids = Some [4], role_requirements = None,
      is_active = True\<rparr>"

definition scoped_db :: abac_db where
  "scoped_db =
     \<lparr>abac_policies = [scoped_policy, division_policy], user_attributes = [],
      resource_attributes = [], abac_access_logs = []\<rparr>"

definition profile_dept2 :: UserAttribute where
  "profile_dept2 =
     \<lparr>ua_user_id = 5, department_id = Some 2, division_id = None, team_id = None,
      job_title = None, job_level = None, approval_limit_amount = None,
      can_approve_own_department = Some False, can_approve_all_departments = Some False,
      office_location = None, country_code = None, custom_attributes = None\<rparr>"

definition scoped_profile_db :: abac_db where
  "scoped_profile_db = scoped_db\<lparr>user_attributes := [profile_dept2]\<rparr>"

text \<open>
  A graph of three nodes in a chain (start, an approval by role hr, end), and a graph of
  one start node.
\<close>

definition chain_graph :: workflow_graph where
  "chain_graph =
     \<lparr>g_name = Some ''Leave request'', g_description = None, g_model_name = Some ''Leave'',
      g_nodes = Some
        [\<lparr>n_id = Some ''n1'', n_type = Some ''start'', n_position = None,
          n_data = Some (PDict [(''label'', PStr ''Start'')])\<rparr>,
         \<lparr>n_id = Some ''n2'', n_type = Some ''approval'', n_position = None,
          n_data = Some (PDict [(''label'', PStr ''HR approval''),
                                (''required_role'', PStr ''hr'')])\<rparr>,
         \<lparr>n_id = Some ''n3'', n_type = Some ''end'', n_position = None,
          n_data = Some (PDict [(''label'', PStr ''End'')])\<rparr>],
      g_edges = Some
        [\<lparr>e_source = Some ''n1'', e_target = Some ''n2'', e_data = None\<rparr>,
         \<lparr>e_source = Some ''n2'', e_target = Some ''n3'', e_data = None\<rparr>]\<rparr>"

definition start_graph :: workflow_graph where
  "start_graph =
     \<lparr>g_name = Some ''Leave request'', g_description = None, g_model_name = Some ''Leave'',
      g_nodes = Some
        [\<lparr>n_id = Some ''s'', n_type = Some ''start'', n_position = None,
          n_data = Some (PDict [(''label'', PStr ''Start'')])\<rparr>],
      g_edges = Some []\<rparr>"

text \<open>
  A database with one definition (id 1, version 1, created by user 5, editable by the
  role clerk) compiled from \<open>start_graph\<close>: one stage (primary key 10) and one
  conditional route from that stage to itself. The database does not enforce foreign
  keys.
\<close>

definition leave_workflow :: WorkflowDefinition where
  "leave_workflow =
     \<lparr>wf_id = 1, wf_name = ''Leave request'', wf_description = None,
      wf_model_name = ''Leave'', wf_graph = Some start_graph, wf_version = 1,
      wf_status = draft, wf_created_by = Some 5, can_view_roles = None,
      can_edit_roles = Some [''clerk''], can_use_roles = None, wf_updated_at = None,
      wf_published_at = None\<rparr>"

definition old_stage :: WorkflowStage where
  "old_stage =
     \<lparr>st_id = 10, st_workflow_id = 1, node_id = ''s'', node_type = node_start,
      st_name = PStr ''Start'', order_index = 0, required_role = PNone,
      required_roles = PNone, specific_users = PNone, approval_type = sequential,
      required_approvals_count = PNone, st_condition_field = PNone,
      st_condition_operator = PNone, st_condition_value = PNone, sla_hours = PNone,
      escalation_role = PNone, escalation_user_id = PNone, auto_escalate = PBool False,
      notification_template = PNone, custom_action = PNone, position_x = PNone,
      position_y = PNone, next_stage_id = None\<rparr>"

definition old_route :: ConditionalRoute where
  "old_route =
     \<lparr>from_stage_id = 10, to_stage_id = 10, condition_label = PStr ''again'',
      rt_condition_field = PStr ''amount'', rt_operator = PStr ''gt'',
      rt_condition_value = PStr ''100'', rt_priority = PInt 0\<rparr>"

definition leave_db :: workflow_db where
  "leave_db =
     \<lparr>workflow_definitions = [leave_workflow], workflow_versions = [],
      workflow_stages = [old_stage], conditional_routes = [old_route],
      next_workflow_id = 2, next_stage_pk = 11, foreign_keys_enforced = False\<rparr>"

text \<open>A user with the role clerk who created nothing.\<close>

definition clerk_user :: User where
  "clerk_user =
     \<lparr>user_id = 6, email = ''u6@example.org'', username = Some ''u6'',
      full_name = Some ''User Six'', role = Some ''clerk'', user_is_active = True,
      is_superuser = None, roles = Some []\<rparr>"

text \<open>
  A graph with two nodes of the same id and an edge to a node that does not exist; a
  graph without a start node; a graph whose start node asks for an approval type that
  does not exist.
\<close>

definition duplicate_graph :: workflow_graph where
  "duplicate_graph =
     \<lparr>g_name = Some ''Duplicates'', g_description = None, g_model_name = None,
      g_nodes = Some
        [\<lparr>n_id = Some ''a'', n_type = Some ''start'', n_position = None,
          n_data = Some (PDict [(''label'', PStr ''Start'')])\<rparr>,
         \<lparr>n_id = Some ''a'', n_type = Some ''approval'', n_position = None,
          n_data = Some (PDict [(''label'', PStr ''Approve'')])\<rparr>],
      g_edges = Some
        [\<lparr>e_source = Some ''a'', e_target = Some ''ghost'', e_data = None\<rparr>]\<rparr>"

definition no_start_graph :: workflow_graph where
  "no_start_graph =
     \<lparr>g_name = Some ''No start'', g_description = None, g_model_name = None,
      g_nodes = Some
        [\<lparr>n_id = Some ''a'', n_type = Some ''approval'', n_position = None,
          n_data = Some (PDict [(''label'', PStr ''Approve'')])\<rparr>],
      g_edges = Some []\<rparr>"

definition bogus_graph :: workflow_graph where
  "bogus_graph =
     \<lparr>g_name = Some ''Bogus'', g_description = None, g_model_name = None,
      g_nodes = Some
        [\<lparr>n_id = Some ''a'', n_type = Some ''start'', n_position = None,
          n_data = Some (PDict [(''label'', PStr ''Start''),
                                (''approval_type'', PStr ''bogus'')])\<rparr>],
      g_edges = Some []\<rparr>"

section \<open>The user object\<close>

text \<open>
  \<^verbatim>\<open>_get_user_attributes\<close> reads \<^verbatim>\<open>user.username\<close>: for an object without this
  attribute \<^verbatim>\<open>check_access\<close> raises before any policy is looked at. The properties of
  the decision engine below are about the calls that return.
\<close>

lemma check_access_needs_username:
  "username user = None \<Longrightarrow>
   check_access B now db user act rtype rid robj context = Inl AttributeError"
  by (simp add: check_access_def get_user_attributes_def)

text \<open>
  \<^verbatim>\<open>publish_workflow\<close> reads \<^verbatim>\<open>user.full_name\<close> for its log line after the commit: for
  an object without this attribute the definition is published and the call raises.
\<close>

lemma publish_without_full_name:
  "full_name user = None \<Longrightarrow> query_workflow db wid = Some w \<Longrightarrow> can_edit user w \<Longrightarrow>
   validate_workflow_completeness db w = [] \<Longrightarrow>
   publish_workflow db wid user now =
     (Inl AttributeError,
      db\<lparr>workflow_definitions :=
           store_workflow (w\<lparr>wf_status := active, wf_published_at := Some now\<rparr>)
             (workflow_definitions db)\<rparr>)"
  by (simp add: publish_workflow_def Let_def)

section \<open>Deny overrides\<close>

lemma evaluate_loop_deny:
  "evaluate_loop ev ps st = Inr st' \<Longrightarrow> p \<in> set ps \<Longrightarrow> effect p = deny \<Longrightarrow> ev p = Inr True
   \<Longrightarrow> decision st' = ''deny'' \<and> (\<exists>q. applied_policy st' = Some q \<and> effect q = deny)"
proof (induction ps arbitrary: st)
  case Nil
  then show ?case by simp
next
  case (Cons a ps)
  show ?case
  proof (cases "ev a")
    case (Inl e)
    with Cons.prems(1) show ?thesis by simp
  next
    case (Inr m)
    show ?thesis
    proof (cases "m \<and> effect a = deny")
      case True
      with Inr Cons.prems(1) show ?thesis by (auto simp: Let_def)
    next
      case False
      then have "p \<noteq> a" using Cons.prems(3,4) Inr by auto
      then have "p \<in> set ps" using Cons.prems(2) by simp
      moreover from False Inr Cons.prems(1) obtain st1 where "evaluate_loop ev ps st1 = Inr st'"
        by (auto simp: Let_def split: if_splits)
      ultimately show ?thesis using Cons.IH Cons.prems(3,4) by blast
    qed
  qed
qed

text \<open>
  C1. Whenever \<^verbatim>\<open>check_access\<close> returns and some candidate with effect DENY matches the
  request, the returned allowed flag is false and the matched policy is a DENY policy,
  whatever ALLOW candidates match as well.
\<close>

theorem deny_overrides:
  assumes "check_access B now db user act rtype rid robj context = Inr ((allowed, rsn, pol), db')"
    and "p \<in> set (get_applicable_policies db act rtype user)"
    and "effect p = deny"
    and "policy_matches B now db user rtype rid robj context p"
  shows "\<not> allowed \<and> (\<exists>q. pol = Some q \<and> effect q = deny)"
proof -
  from assms(4) obtain ua ra where
    ua: "get_user_attributes db user = Inr ua" and
    ra: "get_resource_attributes B db rtype rid robj = Inr ra" and
    m: "evaluate_policy B p ua ra (get_environment_attributes now context) = Inr True"
    by (auto simp: policy_matches_def split: sum.splits)
  let ?ev = "\<lambda>p. evaluate_policy B p ua ra (get_environment_attributes now context)"
  from assms(1) ua ra obtain st where
    st: "evaluate_loop ?ev (sort_by_priority (get_applicable_policies db act rtype user))
           initial_state = Inr st"
    and res: "allowed = (decision st = ''allow'')" "pol = applied_policy st"
    by (auto simp: check_access_def Let_def split: sum.splits)
  have "p \<in> set (sort_by_priority (get_applicable_policies db act rtype user))"
    using assms(2) by (simp add: sort_by_priority_def)
  from evaluate_loop_deny[OF st this assms(3) m] res show ?thesis by auto
qed

text \<open>
  The instance: user 5 asks to approve invoice 7, which user 5 created. Both policies
  are candidates and both match; the call returns, and the flag is false.
\<close>

theorem deny_overrides_witness:
  "deny_own \<in> set (get_applicable_policies approve_db ''approve'' ''Invoice'' example_user) \<and>
   allow_approve \<in> set (get_applicable_policies approve_db ''approve'' ''Invoice'' example_user) \<and>
   policy_matches example_builtins example_clock approve_db example_user ''Invoice'' (Some 7)
     (Some [(''created_by'', PInt 5)]) None deny_own \<and>
   policy_matches example_builtins example_clock approve_db example_user ''Invoice'' (Some 7)
     (Some [(''created_by'', PInt 5)]) None allow_approve \<and>
   \<not> isl (check_access example_builtins example_clock approve_db example_user
            ''approve'' ''Invoice'' (Some 7) (Some [(''created_by'', PInt 5)]) None) \<and>
   \<not> fst (fst (projr (check_access example_builtins example_clock approve_db example_user
            ''approve'' ''Invoice'' (Some 7) (Some [(''created_by'', PInt 5)]) None)))"
proof -
  let ?r = "check_access example_builtins example_clock approve_db example_user
              ''approve'' ''Invoice'' (Some 7) (Some [(''created_by'', PInt 5)]) None"
  have c1: "deny_own \<in> set (get_applicable_policies approve_db ''approve'' ''Invoice'' example_user)"
    by code_simp
  have c2: "allow_approve \<in> set (get_applicable_policies approve_db ''approve'' ''Invoice'' example_user)"
    by code_simp
  have m1: "policy_matches example_builtins example_clock approve_db example_user ''Invoice''
              (Some 7) (Some [(''created_by'', PInt 5)]) None deny_own"
    by code_simp
  have m2: "policy_matches example_builtins example_clock approve_db example_user ''Invoice''
              (Some 7) (Some [(''created_by'', PInt 5)]) None allow_approve"
    by code_simp
  have e: "effect deny_own = deny"
    by (simp add: deny_own_def)
  have r: "\<not> isl ?r"
    by code_simp
  then obtain a rsn pol d where res: "?r = Inr ((a, rsn, pol), d)"
    by (cases ?r) auto
  from deny_overrides[OF res c1 e m1] have "\<not> a" by simp
  with res c1 c2 m1 m2 r show ?thesis by simp
qed

section \<open>Wildcards\<close>

text \<open>
  The query of the matcher compares with equality only: a candidate has exactly the
  action and the resource type of the request.
\<close>

lemma candidates_exact:
  "p \<in> set (get_applicable_policies db act rtype user) \<Longrightarrow>
   is_active p \<and> action p = act \<and> resource_type p = rtype"
  by (auto simp: get_applicable_policies_def policy_selected_def)

text \<open>
  C2 (wildcard match), on the code: the seeded administrator policy with action
  \<^verbatim>\<open>"*"\<close> and resource type \<^verbatim>\<open>"*"\<close> is no candidate when an administrator asks to
  read an invoice; no policy is evaluated and the request is denied.
\<close>

theorem wildcard_policy_not_candidate:
  "get_applicable_policies wildcard_db ''read'' ''invoice'' admin_user = [] \<and>
   check_access example_builtins example_clock wildcard_db admin_user ''read'' ''invoice''
     (Some 7) None None =
   Inr ((False, ''No matching policy found'', None),
        log_access wildcard_db admin_user ''read'' ''invoice'' (Some 7) initial_state
          [(''roles'', PList []), (''id'', PInt 1), (''email'', PStr ''admin@example.org''),
           (''username'', PStr ''admin''), (''role'', PStr ''admin''),
           (''is_active'', PBool True), (''is_superuser'', PBool False)]
          [(''type'', PStr ''invoice''), (''id'', PInt 7)]
          (get_environment_attributes example_clock None) 0 None)"
  by code_simp

section \<open>Priority\<close>

text \<open>
  When every matching policy of the list is an ALLOW, the loop runs to the end and the
  applied policy is the last matching one.
\<close>

lemma evaluate_loop_allow_only:
  assumes "evaluate_loop ev ps st = Inr st'"
    and "\<forall>p \<in> set ps. ev p = Inr True \<longrightarrow> effect p = allow"
  shows "applied_policy st' =
           (if filter (\<lambda>p. ev p = Inr True) ps = [] then applied_policy st
            else Some (last (filter (\<lambda>p. ev p = Inr True) ps)))"
  using assms
proof (induction ps arbitrary: st)
  case Nil
  then show ?case by simp
next
  case (Cons a ps)
  show ?case
  proof (cases "ev a")
    case (Inl e)
    with Cons.prems(1) show ?thesis by simp
  next
    case (Inr m)
    show ?thesis
    proof (cases m)
      case True
      with Inr Cons.prems(2) have al: "effect a = allow" by simp
      let ?st2 = "st\<lparr>evaluated_policy_ids := evaluated_policy_ids st @ [policy_id a],
                      decision := effect_value (effect a), reason := matched_reason a,
                      applied_policy := Some a\<rparr>"
      from Cons.prems(1) Inr True al have "evaluate_loop ev ps ?st2 = Inr st'"
        by (simp add: Let_def)
      from Cons.IH[OF this] Cons.prems(2) Inr True show ?thesis by simp
    next
      case False
      let ?st1 = "st\<lparr>evaluated_policy_ids := evaluated_policy_ids st @ [policy_id a]\<rparr>"
      from Cons.prems(1) Inr False have "evaluate_loop ev ps ?st1 = Inr st'"
        by (simp add: Let_def)
      from Cons.IH[OF this] Cons.prems(2) Inr False show ?thesis by simp
    qed
  qed
qed

lemma sorted_last_greatest:
  "sorted (map f ys) \<Longrightarrow> p \<in> set ys \<Longrightarrow> (f p :: int) \<le> f (last ys)"
proof (induction ys)
  case Nil
  then show ?case by simp
next
  case (Cons y ys)
  show ?case
  proof (cases "ys = []")
    case True
    with Cons.prems show ?thesis by simp
  next
    case False
    then have l: "last ys \<in> set ys" by simp
    from Cons.prems(1) have s: "sorted (map f ys)" and "\<forall>z \<in> set ys. f y \<le> f z" by auto
    with l have "f y \<le> f (last ys)" by blast
    with Cons.prems(2) Cons.IH[OF s] False show ?thesis by auto
  qed
qed

text \<open>
  So when all matching candidates are ALLOW policies, the policy \<^verbatim>\<open>check_access\<close>
  returns as matched is a matching candidate whose priority is at most that of every
  matching candidate.
\<close>

lemma allow_only_lowest_priority:
  assumes "check_access B now db user act rtype rid robj context = Inr ((allowed, rsn, pol), db')"
    and "\<forall>p \<in> set (get_applicable_policies db act rtype user).
           policy_matches B now db user rtype rid robj context p \<longrightarrow> effect p = allow"
    and "p \<in> set (get_applicable_policies db act rtype user)"
    and "policy_matches B now db user rtype rid robj context p"
  shows "\<exists>q. pol = Some q \<and> q \<in> set (get_applicable_policies db act rtype user) \<and>
             policy_matches B now db user rtype rid robj context q \<and>
             priority q \<le> priority p"
proof -
  from assms(4) obtain ua ra where
    ua: "get_user_attributes db user = Inr ua" and
    ra: "get_resource_attributes B db rtype rid robj = Inr ra"
    by (auto simp: policy_matches_def split: sum.splits)
  let ?ev = "\<lambda>p. evaluate_policy B p ua ra (get_environment_attributes now context)"
  let ?ps = "sort_by_priority (get_applicable_policies db act rtype user)"
  let ?ms = "filter (\<lambda>p. ?ev p = Inr True) ?ps"
  have pm: "\<And>x. policy_matches B now db user rtype rid robj context x = (?ev x = Inr True)"
    using ua ra by (simp add: policy_matches_def)
  from assms(1) ua ra obtain st where
    st: "evaluate_loop ?ev ?ps initial_state = Inr st" and res: "pol = applied_policy st"
    by (auto simp: check_access_def Let_def split: sum.splits)
  have set_ps: "set ?ps = set (get_applicable_policies db act rtype user)"
    by (simp add: sort_by_priority_def)
  have ao: "\<forall>p \<in> set ?ps. ?ev p = Inr True \<longrightarrow> effect p = allow"
    using assms(2) pm set_ps by blast
  have pin: "p \<in> set ?ms" using assms(3,4) pm set_ps by simp
  then have ne: "?ms \<noteq> []" by (metis empty_iff list.set(1))
  from evaluate_loop_allow_only[OF st ao] ne res have pol: "pol = Some (last ?ms)" by simp
  have "sorted (map (\<lambda>p. - priority p) ?ps)"
    by (simp add: sort_by_priority_def)
  then have "sorted (map (\<lambda>p. - priority p) ?ms)"
    by (rule sorted_filter)
  from sorted_last_greatest[OF this pin] have "priority (last ?ms) \<le> priority p" by simp
  moreover from ne have "last ?ms \<in> set ?ms" by (rule last_in_set)
  ultimately show ?thesis using pol pm set_ps by auto
qed

text \<open>
  C3 (priority selection of the matched policy), on the code: two unconditional ALLOW
  policies of priority 10 and 5 are the candidates and both match; the policy returned
  as matched is the one of priority 5.
\<close>

theorem lowest_priority_allow_is_matched:
  "allow_high \<in> set (get_applicable_policies priority_db ''read'' ''invoice'' example_user) \<and>
   allow_low \<in> set (get_applicable_policies priority_db ''read'' ''invoice'' example_user) \<and>
   policy_matches example_builtins example_clock priority_db example_user ''invoice'' (Some 7)
     None None allow_high \<and>
   priority allow_low < priority allow_high \<and>
   \<not> isl (check_access example_builtins example_clock priority_db example_user
            ''read'' ''invoice'' (Some 7) None None) \<and>
   snd (snd (fst (projr (check_access example_builtins example_clock priority_db example_user
            ''read'' ''invoice'' (Some 7) None None)))) = Some allow_low"
  by code_simp

section \<open>Scope filters\<close>

text \<open>
  Against C4 as stated: user 5 has no profile, the policy scoped to department 1 is a
  candidate all the same, and \<^verbatim>\<open>check_access\<close> returns a scoped policy as the matched
  one.
\<close>

theorem scoped_policy_kept_without_profile:
  "query_user_attribute scoped_db example_user = None \<and>
   truthy_list (department_ids scoped_policy) \<and>
   scoped_policy \<in> set (get_applicable_policies scoped_db ''read'' ''invoice'' example_user) \<and>
   \<not> isl (check_access example_builtins example_clock scoped_db example_user
            ''read'' ''invoice'' (Some 7) None None) \<and>
   truthy_list (division_ids (the (snd (snd (fst (projr
     (check_access example_builtins example_clock scoped_db example_user
        ''read'' ''invoice'' (Some 7) None None)))))))"
  by code_simp

text \<open>
  C4, amended. The scope filters apply only to a subject that has a profile. For a
  subject without a profile the candidates are exactly the active policies with the
  action and resource type of the request whose role requirement (if any) the subject
  meets, scoped or not. For a subject with a profile, a policy with a non-empty
  \<^verbatim>\<open>department_ids\<close> that does not contain the profile's department is no candidate,
  and likewise for \<^verbatim>\<open>division_ids\<close>.
\<close>

theorem scope_filter_only_with_profile:
  "(query_user_attribute db user = None \<longrightarrow>
      (p \<in> set (get_applicable_policies db act rtype user) \<longleftrightarrow>
         p \<in> set (abac_policies db) \<and> is_active p \<and> action p = act \<and> resource_type p = rtype \<and>
         (truthy_list (role_requirements p) \<longrightarrow>
            any_role_in (user_roles user) (the (role_requirements p))))) \<and>
   (query_user_attribute db user = Some ua \<and> department_ids p = Some ds \<and> ds \<noteq> [] \<and>
      \<not> opt_in (department_id ua) ds \<longrightarrow>
      p \<notin> set (get_applicable_policies db act rtype user)) \<and>
   (query_user_attribute db user = Some ua \<and> division_ids p = Some vs \<and> vs \<noteq> [] \<and>
      \<not> opt_in (division_id ua) vs \<longrightarrow>
      p \<notin> set (get_applicable_policies db act rtype user))"
  by (auto simp: get_applicable_policies_def policy_selected_def policy_applies_def)

text \<open>
  The instances: without a profile the department policy is a candidate; with the
  profile (department 2, no division) neither scoped policy is.
\<close>

theorem scope_filter_only_with_profile_witness:
  "query_user_attribute scoped_db example_user = None \<and>
   scoped_policy \<in> set (get_applicable_policies scoped_db ''read'' ''invoice'' example_user) \<and>
   query_user_attribute scoped_profile_db example_user = Some profile_dept2 \<and>
   department_ids scoped_policy = Some [1] \<and>
   \<not> opt_in (department_id profile_dept2) [1] \<and>
   division_ids division_policy = Some [4] \<and>
   \<not> opt_in (division_id profile_dept2) [4] \<and>
   scoped_policy \<in> set (abac_policies scoped_profile_db) \<and>
   division_policy \<in> set (abac_policies scoped_profile_db) \<and>
   scoped_policy \<notin> set (get_applicable_policies scoped_profile_db ''read'' ''invoice'' example_user) \<and>
   division_policy \<notin> set (get_applicable_policies scoped_profile_db ''read'' ''invoice'' example_user)"
proof -
  have a: "query_user_attribute scoped_db example_user = None"
    by code_simp
  have b: "scoped_policy \<in> set (abac_policies scoped_db)" "is_active scoped_policy"
    "action scoped_policy = ''read''" "resource_type scoped_policy = ''invoice''"
    "\<not> truthy_list (role_requirements scoped_policy)"
    by (simp_all add: scoped_db_def scoped_policy_def)
  have c: "query_user_attribute scoped_profile_db example_user = Some profile_dept2"
    by code_simp
  have d: "department_ids scoped_policy = Some [1]" "[1::int] \<noteq> []"
    "\<not> opt_in (department_id profile_dept2) [1]"
    by (simp_all add: scoped_policy_def profile_dept2_def)
  have d': "division_ids division_policy = Some [4]" "[4::int] \<noteq> []"
    "\<not> opt_in (division_id profile_dept2) [4]"
    by (simp_all add: division_policy_def profile_dept2_def)
  have e: "scoped_policy \<in> set (abac_policies scoped_profile_db)"
    "division_policy \<in> set (abac_policies scoped_profile_db)"
    by (simp_all add: scoped_profile_db_def scoped_db_def)
  from scope_filter_only_with_profile
         [of scoped_db example_user scoped_policy "''read''" "''invoice''" profile_dept2 "[1]" "[]"]
       a b
  have 1: "scoped_policy \<in> set (get_applicable_policies scoped_db ''read'' ''invoice'' example_user)"
    by simp
  from scope_filter_only_with_profile
         [of scoped_profile_db example_user scoped_policy "''read''" "''invoice''" profile_dept2 "[1]" "[]"]
       c d
  have 2: "scoped_policy \<notin> set (get_applicable_policies scoped_profile_db ''read'' ''invoice'' example_user)"
    by simp
  from scope_filter_only_with_profile
         [of scoped_profile_db example_user division_policy "''read''" "''invoice''" profile_dept2 "[]" "[4]"]
       c d'
  have 3: "division_policy \<notin> set (get_applicable_policies scoped_profile_db ''read'' ''invoice'' example_user)"
    by simp
  from a 1 c d d' e 2 3 show ?thesis by simp
qed

section \<open>The evaluator raises\<close>

text \<open>
  C5 (the condition evaluator is total), on the code: a condition without an
  \<^verbatim>\<open>"attribute"\<close> key makes \<^verbatim>\<open>_evaluate_condition\<close> raise AttributeError, whatever the
  attribute bags and the builtins.
\<close>

theorem missing_attribute_raises:
  "evaluate_condition B [(''operator'', PStr ''eq''), (''value'', PInt 1)]
     user_attrs resource_attrs env_attrs = Inl AttributeError"
  by (simp add: evaluate_condition_def dict_get_def)

text \<open>
  The \<^verbatim>\<open>except\<close> clause of \<^verbatim>\<open>_apply_operator\<close> does not name OverflowError: a numeric
  comparison of an integer too large for a float raises it.
\<close>

lemma overflow_not_caught:
  "float_of_int B i = None \<Longrightarrow>
   apply_operator B (PStr ''gt'') (PInt i) expected = Inl OverflowError"
  by (simp add: apply_operator_def apply_operator_body_def float_cmp_def)

text \<open>An operator that is none of the fourteen gives False.\<close>

lemma unknown_operator_false:
  "operator \<notin> PStr ` {''eq'', ''ne'', ''gt'', ''gte'', ''lt'', ''lte'', ''in'', ''not_in'',
     ''contains'', ''starts_with'', ''ends_with'', ''between'', ''is_null'', ''is_not_null''} \<Longrightarrow>
   apply_operator B operator actual expected = Inr False"
  by (simp add: apply_operator_def apply_operator_body_def)

section \<open>Versions\<close>

text \<open>The compiler touches neither the definitions nor the version rows.\<close>

lemma create_stages_tables:
  "create_stages wid idx nodes db m = Inr (db', m') \<Longrightarrow>
   workflow_definitions db' = workflow_definitions db \<and>
   workflow_versions db' = workflow_versions db \<and>
   conditional_routes db' = conditional_routes db"
  by (induction nodes arbitrary: idx db m) (auto split: sum.splits)

lemma connect_edges_tables:
  "connect_edges m edges db = Inr db' \<Longrightarrow>
   workflow_definitions db' = workflow_definitions db \<and>
   workflow_versions db' = workflow_versions db"
  by (induction edges arbitrary: db)
     (auto simp: set_stage_next_def split: sum.splits option.splits if_splits)

lemma sync_stages_tables:
  "sync_stages_from_graph db w g = Inr db' \<Longrightarrow>
   workflow_definitions db' = workflow_definitions db \<and>
   workflow_versions db' = workflow_versions db"
  by (auto simp: sync_stages_from_graph_def Let_def delete_stages_def delete_routes_def
      split: sum.splits dest!: create_stages_tables connect_edges_tables)

lemma sync_and_commit_tables:
  "sync_and_commit db w g = Inr (w', db') \<Longrightarrow>
   w' = w \<and> workflow_definitions db' = workflow_definitions db \<and>
   workflow_versions db' = workflow_versions db"
  by (auto simp: sync_and_commit_def split: sum.splits if_splits dest: sync_stages_tables)

lemma find_store_workflow:
  "find (\<lambda>x. wf_id x = wf_id w) xs = Some old \<Longrightarrow>
   find (\<lambda>x. wf_id x = wf_id w) (store_workflow w xs) = Some w"
  by (induction xs) (auto split: if_splits)

lemma query_workflow_id: "query_workflow db wid = Some w \<Longrightarrow> wf_id w = wid"
  by (auto simp: query_workflow_def find_Some_iff)

text \<open>
  C7. A successful \<^verbatim>\<open>save_workflow_graph\<close> on an existing definition with version \<open>v\<close>
  and graph \<open>g\<close> returns the definition with version \<open>v + 1\<close> and the new graph, stores it
  under its id, and adds exactly one \<^verbatim>\<open>WorkflowVersion\<close> row, with version number \<open>v\<close>,
  graph \<open>g\<close>, the change description and the editing user.
\<close>

theorem save_increments_version_and_snapshots:
  assumes "save_workflow_graph db (Some wid) g user description now = Inr (w', db')"
    and "wid \<noteq> 0"
    and "query_workflow db wid = Some w"
  shows "wf_version w' = wf_version w + 1 \<and> wf_graph w' = Some g \<and> wf_id w' = wid \<and>
         query_workflow db' wid = Some w' \<and>
         workflow_versions db' = workflow_versions db @
           [\<lparr>ver_workflow_id = wid, version_number = wf_version w, ver_graph = wf_graph w,
             change_description = description, ver_created_by = user_id user\<rparr>]"
proof -
  let ?w' = "w\<lparr>wf_graph := Some g, wf_version := wf_version w + 1, wf_updated_at := Some now\<rparr>"
  let ?db1 = "db\<lparr>workflow_versions := workflow_versions db @
                 [\<lparr>ver_workflow_id = wf_id w, version_number = wf_version w,
                   ver_graph = wf_graph w, change_description = description,
                   ver_created_by = user_id user\<rparr>]\<rparr>"
  let ?db2 = "?db1\<lparr>workflow_definitions := store_workflow ?w' (workflow_definitions ?db1)\<rparr>"
  have wid: "wf_id w = wid" using assms(3) by (rule query_workflow_id)
  from assms have sc: "sync_and_commit ?db2 ?w' g = Inr (w', db')"
    by (auto simp: save_workflow_graph_def Let_def split: sum.splits if_splits)
  from sync_and_commit_tables[OF sc]
  have eq: "w' = ?w'" and defs: "workflow_definitions db' = workflow_definitions ?db2"
    and vers: "workflow_versions db' = workflow_versions ?db2" by auto
  have "find (\<lambda>x. wf_id x = wf_id ?w') (store_workflow ?w' (workflow_definitions db)) = Some ?w'"
    using assms(3) wid by (intro find_store_workflow[where old = w]) (simp add: query_workflow_def)
  then have "query_workflow db' wid = Some w'"
    using defs eq wid by (simp add: query_workflow_def)
  with eq vers wid show ?thesis by simp
qed

text \<open>
  The instance: user 5, the creator, saves the chain graph over definition 1
  (version 1, compiled from the start graph).
\<close>

theorem save_increments_version_and_snapshots_witness:
  "query_workflow leave_db 1 = Some leave_workflow \<and>
   \<not> isl (save_workflow_graph leave_db (Some 1) chain_graph example_user
            (Some ''add approval'') 0) \<and>
   wf_version leave_workflow = 1 \<and>
   wf_version (fst (projr (save_workflow_graph leave_db (Some 1) chain_graph example_user
            (Some ''add approval'') 0))) = 2 \<and>
   workflow_versions (snd (projr (save_workflow_graph leave_db (Some 1) chain_graph
            example_user (Some ''add approval'') 0))) =
     [\<lparr>ver_workflow_id = 1, version_number = 1, ver_graph = Some start_graph,
       change_description = Some ''add approval'', ver_created_by = 5\<rparr>]"
proof -
  let ?r = "save_workflow_graph leave_db (Some 1) chain_graph example_user
              (Some ''add approval'') 0"
  have q: "query_workflow leave_db 1 = Some leave_workflow"
    by code_simp
  have r: "\<not> isl ?r"
    by code_simp
  then obtain w' db' where res: "?r = Inr (w', db')"
    by (cases ?r) auto
  have v: "wf_version leave_workflow = 1" "wf_graph leave_workflow = Some start_graph"
    "workflow_versions leave_db = []" "user_id example_user = 5"
    by (simp_all add: leave_workflow_def leave_db_def example_user_def)
  from save_increments_version_and_snapshots[OF res _ q] v
  have "wf_version w' = 2 \<and> workflow_versions db' =
     [\<lparr>ver_workflow_id = 1, version_number = 1, ver_graph = Some start_graph,
       change_description = Some ''add approval'', ver_created_by = 5\<rparr>]"
    by simp
  with q r res v show ?thesis by simp
qed

section \<open>Publishing\<close>

text \<open>\<^verbatim>\<open>publish_workflow\<close> answers 403 exactly when \<^verbatim>\<open>_can_edit\<close> is false.\<close>

lemma publish_forbidden_iff:
  "query_workflow db wid = Some w \<Longrightarrow>
   (fst (publish_workflow db wid user now) = Inl (HTTPException 403)) = (\<not> can_edit user w)"
  by (auto simp: publish_workflow_def Let_def split: option.splits)

text \<open>
  C6 (publish permission), on the code: a clerk who did not create the definition but
  holds a role of its edit list publishes it, and so does its creator, who holds none
  of the roles manager, supervisor, department head; \<^verbatim>\<open>can_publish_workflow\<close> refuses
  both.
\<close>

theorem publish_checks_edit_permission_only:
  "\<not> can_publish_workflow clerk_user leave_workflow \<and>
   wf_created_by leave_workflow \<noteq> Some (user_id clerk_user) \<and>
   role clerk_user \<noteq> Some ''admin'' \<and>
   query_workflow leave_db 1 = Some leave_workflow \<and>
   fst (publish_workflow leave_db 1 clerk_user 0) =
     Inr (leave_workflow\<lparr>wf_status := active, wf_published_at := Some 0\<rparr>) \<and>
   \<not> can_publish_workflow example_user leave_workflow \<and>
   fst (publish_workflow leave_db 1 example_user 0) =
     Inr (leave_workflow\<lparr>wf_status := active, wf_published_at := Some 0\<rparr>)"
  by code_simp

section \<open>Compilation\<close>

text \<open>What a successful compilation leaves in the stage table and in the route table.\<close>

lemma build_stage_fields:
  "st_workflow_id (build_stage wid pk idx nid ntype nd atype pos) = wid"
  "node_id (build_stage wid pk idx nid ntype nd atype pos) = nid"
  "st_id (build_stage wid pk idx nid ntype nd atype pos) = pk"
  by (simp_all add: build_stage_def)

lemma make_stage_Inr:
  "make_stage wid pk idx n = Inr st \<Longrightarrow>
   \<exists>nid nd atype pos. n_id n = Some nid \<and> st = build_stage wid pk idx nid (n_type n) nd atype pos"
  by (auto simp: make_stage_def Let_def split: option.splits sum.splits if_splits)

lemma make_stage_fields:
  "make_stage wid pk idx n = Inr st \<Longrightarrow>
   st_workflow_id st = wid \<and> Some (node_id st) = n_id n \<and> st_id st = pk"
  by (auto dest!: make_stage_Inr simp: build_stage_fields)

lemma create_stages_appends:
  "create_stages wid idx nodes db m = Inr (db', m') \<Longrightarrow>
   \<exists>new. workflow_stages db' = workflow_stages db @ new \<and>
         map (\<lambda>s. Some (node_id s)) new = map n_id nodes \<and>
         list_all (\<lambda>s. st_workflow_id s = wid) new"
proof (induction nodes arbitrary: idx db m)
  case Nil
  then show ?case by simp
next
  case (Cons n nodes)
  from Cons.prems obtain st where
    st: "make_stage wid (next_stage_pk db) idx n = Inr st" and
    rest: "create_stages wid (Suc idx) nodes
             (db\<lparr>workflow_stages := workflow_stages db @ [st],
                 next_stage_pk := next_stage_pk db + 1\<rparr>)
             ((node_id st, st_id st) # m) = Inr (db', m')"
    by (auto split: sum.splits)
  from Cons.IH[OF rest] obtain new where
    new: "workflow_stages db' = (workflow_stages db @ [st]) @ new"
      "map (\<lambda>s. Some (node_id s)) new = map n_id nodes"
      "list_all (\<lambda>s. st_workflow_id s = wid) new"
    by auto
  with make_stage_fields[OF st] show ?case
    by (intro exI[where x = "st # new"]) simp
qed

lemma connect_edges_step:
  assumes "connect_edges m (e # edges) db = Inr db'"
  shows "\<exists>db1. connect_edges m edges db1 = Inr db' \<and>
           (db1 = db \<or>
            (\<exists>r. db1 = db\<lparr>conditional_routes := conditional_routes db @ [r]\<rparr>) \<or>
            (\<exists>src tgt. db1 = set_stage_next db src tgt))"
proof (cases "e_source e")
  case None
  with assms show ?thesis by simp
next
  case src: (Some source_id)
  show ?thesis
  proof (cases "e_target e")
    case None
    with assms src show ?thesis by simp
  next
    case tgt: (Some target_id)
    show ?thesis
    proof (cases "map_of m source_id")
      case None
      with assms src tgt show ?thesis by auto
    next
      case s: (Some sid)
      show ?thesis
      proof (cases "map_of m target_id")
        case None
        with assms src tgt s show ?thesis by auto
      next
        case t: (Some tid)
        show ?thesis
        proof (cases "as_object (e_data e)")
          case (Inl err)
          with assms src tgt s t show ?thesis by simp
        next
          case (Inr edge_data)
          show ?thesis
          proof (cases "py_truthy (dict_get edge_data ''condition'' PNone)")
            case True
            with assms src tgt s t Inr show ?thesis by auto
          next
            case False
            with assms src tgt s t Inr show ?thesis
              by (cases "stage_next db sid = None \<or> stage_next db sid = Some 0") auto
          qed
        qed
      qed
    qed
  qed
qed

lemma connect_edges_stages:
  "connect_edges m edges db = Inr db' \<Longrightarrow>
   map (\<lambda>s. (st_workflow_id s, node_id s)) (workflow_stages db') =
   map (\<lambda>s. (st_workflow_id s, node_id s)) (workflow_stages db)"
proof (induction edges arbitrary: db)
  case Nil
  then show ?case by simp
next
  case (Cons e edges)
  have k: "\<And>src tgt. map (\<lambda>s. (st_workflow_id s, node_id s))
             (workflow_stages (set_stage_next db src tgt)) =
           map (\<lambda>s. (st_workflow_id s, node_id s)) (workflow_stages db)"
    by (simp add: set_stage_next_def comp_def if_distrib cong: if_cong)
  from connect_edges_step[OF Cons.prems] obtain db1 where
    rest: "connect_edges m edges db1 = Inr db'" and
    d: "db1 = db \<or> (\<exists>r. db1 = db\<lparr>conditional_routes := conditional_routes db @ [r]\<rparr>) \<or>
        (\<exists>src tgt. db1 = set_stage_next db src tgt)"
    by blast
  from d k have "map (\<lambda>s. (st_workflow_id s, node_id s)) (workflow_stages db1) =
                 map (\<lambda>s. (st_workflow_id s, node_id s)) (workflow_stages db)"
    by auto
  with Cons.IH[OF rest] show ?case by simp
qed

lemma connect_edges_routes:
  "connect_edges m edges db = Inr db' \<Longrightarrow>
   \<exists>new. conditional_routes db' = conditional_routes db @ new"
proof (induction edges arbitrary: db)
  case Nil
  then show ?case by simp
next
  case (Cons e edges)
  from connect_edges_step[OF Cons.prems] obtain db1 where
    rest: "connect_edges m edges db1 = Inr db'" and
    d: "db1 = db \<or> (\<exists>r. db1 = db\<lparr>conditional_routes := conditional_routes db @ [r]\<rparr>) \<or>
        (\<exists>src tgt. db1 = set_stage_next db src tgt)"
    by blast
  from d have "\<exists>one. conditional_routes db1 = conditional_routes db @ one"
    by (auto simp: set_stage_next_def)
  then obtain one where "conditional_routes db1 = conditional_routes db @ one" by blast
  moreover from Cons.IH[OF rest] obtain new where
    "conditional_routes db' = conditional_routes db1 @ new" by blast
  ultimately have "conditional_routes db' = conditional_routes db @ (one @ new)" by simp
  then show ?case by blast
qed

lemma create_stages_routes:
  "create_stages wid idx nodes db m = Inr (db', m') \<Longrightarrow>
   conditional_routes db' = conditional_routes db"
  by (induction nodes arbitrary: idx db m) (auto split: sum.splits)

lemma node_ids_of_pairs:
  "map node_id (filter (\<lambda>s. st_workflow_id s = wid) xs) =
   map snd (filter (\<lambda>p. fst p = wid) (map (\<lambda>s. (st_workflow_id s, node_id s)) xs))"
  by (induction xs) auto

lemma delete_stages_none_left:
  "filter (\<lambda>s. st_workflow_id s = wid) (workflow_stages (delete_routes (delete_stages db wid) wid)) = []"
  by (auto simp: delete_routes_def delete_stages_def Let_def filter_empty_conv)

lemma compiled_stages_are_the_nodes:
  assumes "sync_stages_from_graph db w g = Inr db'"
  shows "map (\<lambda>s. Some (node_id s))
           (filter (\<lambda>s. st_workflow_id s = wf_id w) (workflow_stages db')) =
         map n_id (case g_nodes g of None \<Rightarrow> [] | Some ns \<Rightarrow> ns)"
proof -
  let ?wid = "wf_id w"
  let ?db2 = "delete_routes (delete_stages db ?wid) ?wid"
  let ?nodes = "case g_nodes g of None \<Rightarrow> [] | Some ns \<Rightarrow> ns"
  from assms obtain db3 m where
    cs: "create_stages ?wid 0 ?nodes ?db2 [] = Inr (db3, m)" and
    ce: "connect_edges m (case g_edges g of None \<Rightarrow> [] | Some es \<Rightarrow> es) db3 = Inr db'"
    by (auto simp: sync_stages_from_graph_def Let_def split: sum.splits)
  from create_stages_appends[OF cs] obtain new where
    new: "workflow_stages db3 = workflow_stages ?db2 @ new"
      "map (\<lambda>s. Some (node_id s)) new = map n_id ?nodes"
      "list_all (\<lambda>s. st_workflow_id s = ?wid) new"
    by auto
  have "filter (\<lambda>s. st_workflow_id s = ?wid) (workflow_stages db3) = new"
    using new(1,3) delete_stages_none_left[of ?wid db]
    by (simp add: list_all_iff)
  then have "map node_id (filter (\<lambda>s. st_workflow_id s = ?wid) (workflow_stages db3)) =
             map node_id new" by simp
  moreover have "map node_id (filter (\<lambda>s. st_workflow_id s = ?wid) (workflow_stages db')) =
        map node_id (filter (\<lambda>s. st_workflow_id s = ?wid) (workflow_stages db3))"
    using connect_edges_stages[OF ce] by (simp add: node_ids_of_pairs)
  ultimately have "map node_id (filter (\<lambda>s. st_workflow_id s = ?wid) (workflow_stages db')) =
        map node_id new" by simp
  then have "map Some (map node_id
           (filter (\<lambda>s. st_workflow_id s = ?wid) (workflow_stages db'))) =
        map Some (map node_id new)"
    by (rule arg_cong)
  then have "map (\<lambda>s. Some (node_id s))
           (filter (\<lambda>s. st_workflow_id s = ?wid) (workflow_stages db')) =
        map (\<lambda>s. Some (node_id s)) new"
    by (simp add: comp_def)
  with new(2) show ?thesis by simp
qed

lemma routes_after_sync:
  assumes "sync_stages_from_graph db w g = Inr db'"
  shows "\<exists>new. conditional_routes db' =
           (if foreign_keys_enforced db
            then filter (\<lambda>r. from_stage_id r \<notin> set (stage_ids_of db (wf_id w)) \<and>
                             to_stage_id r \<notin> set (stage_ids_of db (wf_id w)))
                   (conditional_routes db)
            else conditional_routes db) @ new"
proof -
  let ?wid = "wf_id w"
  let ?db1 = "delete_stages db ?wid"
  let ?db2 = "delete_routes ?db1 ?wid"
  from assms obtain db3 m where
    cs: "create_stages ?wid 0 (case g_nodes g of None \<Rightarrow> [] | Some ns \<Rightarrow> ns) ?db2 [] = Inr (db3, m)" and
    ce: "connect_edges m (case g_edges g of None \<Rightarrow> [] | Some es \<Rightarrow> es) db3 = Inr db'"
    by (auto simp: sync_stages_from_graph_def Let_def split: sum.splits)
  have none: "stage_ids_of ?db1 ?wid = []"
    by (auto simp: stage_ids_of_def delete_stages_def Let_def filter_empty_conv)
  then have "conditional_routes ?db2 = conditional_routes ?db1"
    by (simp add: delete_routes_def)
  moreover have "conditional_routes ?db1 =
           (if foreign_keys_enforced db
            then filter (\<lambda>r. from_stage_id r \<notin> set (stage_ids_of db ?wid) \<and>
                             to_stage_id r \<notin> set (stage_ids_of db ?wid))
                   (conditional_routes db)
            else conditional_routes db)"
    by (simp add: delete_stages_def Let_def)
  ultimately have "conditional_routes db3 =
           (if foreign_keys_enforced db
            then filter (\<lambda>r. from_stage_id r \<notin> set (stage_ids_of db ?wid) \<and>
                             to_stage_id r \<notin> set (stage_ids_of db ?wid))
                   (conditional_routes db)
            else conditional_routes db)"
    using create_stages_routes[OF cs] by simp
  moreover from connect_edges_routes[OF ce] obtain new where
    "conditional_routes db' = conditional_routes db3 @ new" by blast
  ultimately show ?thesis by simp
qed

text \<open>
  C8 (compilation replaces derived state completely), on the code, in a database that
  does not enforce foreign keys: after a successful save of the chain graph over
  definition 1 the stages of the workflow are those of the three nodes, and the route
  that started at the old stage 10 is still in the table, though no stage 10 is left.
\<close>

theorem stale_route_survives_save:
  "\<not> isl (save_workflow_graph leave_db (Some 1) chain_graph example_user None 0) \<and>
   from_stage_id old_route \<in> set (stage_ids_of leave_db 1) \<and>
   old_route \<in> set (conditional_routes
     (snd (projr (save_workflow_graph leave_db (Some 1) chain_graph example_user None 0)))) \<and>
   from_stage_id old_route \<notin> set (map st_id (workflow_stages
     (snd (projr (save_workflow_graph leave_db (Some 1) chain_graph example_user None 0))))) \<and>
   map node_id (workflow_stages
     (snd (projr (save_workflow_graph leave_db (Some 1) chain_graph example_user None 0)))) =
     [''n1'', ''n2'', ''n3'']"
  by code_simp

section \<open>Validation\<close>

text \<open>
  Against C9 as stated: a graph with two nodes of the same id and an edge to a node that
  does not exist passes validation, and the save succeeds.
\<close>

theorem invalid_graph_accepted:
  "validate_graph duplicate_graph = Inr () \<and>
   \<not> distinct (map n_id (the (g_nodes duplicate_graph))) \<and>
   e_target (hd (the (g_edges duplicate_graph))) = Some ''ghost'' \<and>
   Some ''ghost'' \<notin> set (map n_id (the (g_nodes duplicate_graph))) \<and>
   \<not> isl (save_workflow_graph leave_db None duplicate_graph example_user None 0)"
  by code_simp

text \<open>
  C9, amended. Validation succeeds exactly when the document has a \<^verbatim>\<open>nodes\<close> key and an
  \<^verbatim>\<open>edges\<close> key, \<^verbatim>\<open>nodes\<close> is not empty and some node has type \<^verbatim>\<open>start\<close>; whenever it
  does not succeed, \<^verbatim>\<open>save_workflow_graph\<close> fails with status 400.
\<close>

theorem validation_checks:
  "(validate_graph g = Inr () \<longleftrightarrow>
      (\<exists>ns es. g_nodes g = Some ns \<and> g_edges g = Some es \<and> ns \<noteq> [] \<and>
         (\<exists>n \<in> set ns. n_type n = Some ''start''))) \<and>
   (validate_graph g \<noteq> Inr () \<longrightarrow>
      save_workflow_graph db wid g user description now = Inl (HTTPException 400))"
proof -
  have a: "validate_graph g = Inr () \<or> validate_graph g = Inl (HTTPException 400)"
    by (simp add: validate_graph_def Let_def)
  have b: "validate_graph g = Inr () \<longleftrightarrow>
      (\<exists>ns es. g_nodes g = Some ns \<and> g_edges g = Some es \<and> ns \<noteq> [] \<and>
         (\<exists>n \<in> set ns. n_type n = Some ''start''))"
    by (auto simp: validate_graph_def Let_def list_ex_iff)
  have c: "validate_graph g = Inl (HTTPException 400) \<Longrightarrow>
      save_workflow_graph db wid g user description now = Inl (HTTPException 400)"
    by (simp add: save_workflow_graph_def)
  from a b c show ?thesis by blast
qed

text \<open>The instances: the graph with duplicates passes, the graph without a start node is refused.\<close>

theorem validation_checks_witness:
  "validate_graph duplicate_graph = Inr () \<and>
   validate_graph no_start_graph \<noteq> Inr () \<and>
   save_workflow_graph leave_db None no_start_graph example_user None 0 =
     Inl (HTTPException 400)"
proof -
  have 1: "g_nodes duplicate_graph = Some (the (g_nodes duplicate_graph))"
    "g_edges duplicate_graph = Some (the (g_edges duplicate_graph))"
    "the (g_nodes duplicate_graph) \<noteq> []"
    "\<exists>n \<in> set (the (g_nodes duplicate_graph)). n_type n = Some ''start''"
    by (simp_all add: duplicate_graph_def)
  have 2: "validate_graph no_start_graph \<noteq> Inr ()"
    by code_simp
  from validation_checks[of duplicate_graph leave_db None example_user None 0] 1
  have a: "validate_graph duplicate_graph = Inr ()" by blast
  from validation_checks[of no_start_graph leave_db None example_user None 0] 2
  have b: "save_workflow_graph leave_db None no_start_graph example_user None 0 =
     Inl (HTTPException 400)" by blast
  from a 2 b show ?thesis by simp
qed

section \<open>The compiler is partial\<close>

text \<open>A node type that is no member of \<^verbatim>\<open>NodeType\<close> becomes APPROVAL.\<close>

lemma unknown_node_type_defaults:
  "s \<notin> {''start'', ''approval'', ''condition'', ''parallel'', ''end'', ''notification'',
         ''action''} \<Longrightarrow> parse_node_type s = node_approval"
  by (simp add: parse_node_type_def)

lemma make_stage_unknown_approval_type:
  assumes "n_data n = Some (PDict d)" and "map_of d ''approval_type'' = Some v"
    and "v \<notin> {PStr ''sequential'', PStr ''parallel_all'', PStr ''parallel_any'',
               PStr ''parallel_majority''}"
  shows "make_stage wid pk idx n = Inl KeyError \<or> make_stage wid pk idx n = Inl ValueError"
  using assms
  by (auto simp: make_stage_def dict_get_def parse_approval_type_def split: option.splits)

lemma make_stage_errors:
  "make_stage wid pk idx n = Inl e \<Longrightarrow>
   e \<in> {ValueError, KeyError, AttributeError, IntegrityError}"
proof -
  have as: "\<And>x e. as_object x = Inl e \<Longrightarrow> e = AttributeError"
    by (erule as_object.elims) auto
  have pa: "\<And>x e. parse_approval_type x = Inl e \<Longrightarrow> e = ValueError"
    by (auto simp: parse_approval_type_def split: if_splits)
  assume "make_stage wid pk idx n = Inl e"
  then show ?thesis
    by (auto simp: make_stage_def Let_def split: option.splits sum.splits if_splits
        dest: as pa)
qed

lemma create_stages_errors:
  "create_stages wid idx nodes db m = Inl e \<Longrightarrow>
   e \<in> {ValueError, KeyError, AttributeError, IntegrityError}"
proof (induction nodes arbitrary: idx db m)
  case Nil
  then show ?case by simp
next
  case (Cons n nodes)
  show ?case
  proof (cases "make_stage wid (next_stage_pk db) idx n")
    case (Inl e')
    with Cons.prems have "e' = e" by simp
    with Inl make_stage_errors show ?thesis by blast
  next
    case (Inr st)
    with Cons.prems Cons.IH show ?thesis by simp
  qed
qed

lemma create_stages_fails:
  "n \<in> set nodes \<Longrightarrow> (\<And>pk idx. isl (make_stage wid pk idx n)) \<Longrightarrow>
   isl (create_stages wid idx nodes db m)"
proof (induction nodes arbitrary: idx db m)
  case Nil
  then show ?case by simp
next
  case (Cons a nodes)
  show ?case
  proof (cases "make_stage wid (next_stage_pk db) idx a")
    case (Inl e)
    then show ?thesis by simp
  next
    case (Inr st)
    with Cons.prems(2)[of "next_stage_pk db" idx] have "n \<noteq> a" by auto
    with Cons.prems(1) have "n \<in> set nodes" by simp
    with Cons.IH Cons.prems(2) Inr show ?thesis by simp
  qed
qed

lemma sync_and_commit_fails:
  assumes "g_nodes g = Some ns" and "n \<in> set ns"
    and "\<And>pk idx. isl (make_stage (wf_id w) pk idx n)"
  shows "\<exists>e. sync_and_commit db w g = Inl e \<and>
             e \<in> {ValueError, KeyError, AttributeError, IntegrityError}"
proof -
  let ?db2 = "delete_routes (delete_stages db (wf_id w)) (wf_id w)"
  have "isl (create_stages (wf_id w) 0 ns ?db2 [])"
    using assms(2,3) by (rule create_stages_fails)
  then obtain e where e: "create_stages (wf_id w) 0 ns ?db2 [] = Inl e"
    by (cases "create_stages (wf_id w) 0 ns ?db2 []") auto
  with create_stages_errors have "e \<in> {ValueError, KeyError, AttributeError, IntegrityError}"
    by blast
  moreover from e assms(1) have "sync_and_commit db w g = Inl e"
    by (simp add: sync_and_commit_def sync_stages_from_graph_def Let_def)
  ultimately show ?thesis by blast
qed

text \<open>
  C10. A graph that passes validation and has a node whose \<^verbatim>\<open>data\<close> carries an
  \<^verbatim>\<open>approval_type\<close> outside the four values of \<^verbatim>\<open>ApprovalType\<close> is never saved:
  \<^verbatim>\<open>save_workflow_graph\<close> raises for every database, workflow id and user, and when a new
  definition is created the exception is none of the HTTP errors of the service.
\<close>

theorem unknown_approval_type_aborts_save:
  assumes "validate_graph g = Inr ()"
    and "g_nodes g = Some ns" and "n \<in> set ns"
    and "n_data n = Some (PDict d)" and "map_of d ''approval_type'' = Some v"
    and "v \<notin> {PStr ''sequential'', PStr ''parallel_all'', PStr ''parallel_any'',
               PStr ''parallel_majority''}"
  shows "(\<exists>e. save_workflow_graph db wid g user description now = Inl e) \<and>
         (\<exists>e. save_workflow_graph db None g user description now = Inl e \<and>
              e \<in> {ValueError, KeyError, AttributeError, IntegrityError})"
proof -
  have bad: "\<And>i pk idx. isl (make_stage i pk idx n)"
    using make_stage_unknown_approval_type[OF assms(4,5,6)] by (metis sum.disc(1))
  have 1: "\<exists>e. save_workflow_graph db wid g user description now = Inl e"
  proof (cases "wid \<noteq> None \<and> wid \<noteq> Some 0")
    case True
    show ?thesis
    proof (cases "query_workflow db (the wid)")
      case None
      with True assms(1) show ?thesis by (simp add: save_workflow_graph_def)
    next
      case (Some w)
      show ?thesis
      proof (cases "can_edit user w")
        case False
        with True Some assms(1) show ?thesis by (simp add: save_workflow_graph_def)
      next
        case ce: True
        let ?w' = "w\<lparr>wf_graph := Some g, wf_version := wf_version w + 1,
                      wf_updated_at := Some now\<rparr>"
        from sync_and_commit_fails[OF assms(2,3), of ?w'] bad
        have "\<And>db0. \<exists>e. sync_and_commit db0 ?w' g = Inl e" by blast
        with True Some ce assms(1) show ?thesis
          by (simp add: save_workflow_graph_def Let_def)
      qed
    qed
  next
    case False
    from sync_and_commit_fails[OF assms(2,3)] bad
    have "\<And>db0 w0. \<exists>e. sync_and_commit db0 w0 g = Inl e" by blast
    with False assms(1) show ?thesis
      by (auto simp: save_workflow_graph_def Let_def)
  qed
  have 2: "\<exists>e. save_workflow_graph db None g user description now = Inl e \<and>
              e \<in> {ValueError, KeyError, AttributeError, IntegrityError}"
  proof -
    from sync_and_commit_fails[OF assms(2,3)] bad
    have "\<And>db0 w0. \<exists>e. sync_and_commit db0 w0 g = Inl e \<and>
            e \<in> {ValueError, KeyError, AttributeError, IntegrityError}" by blast
    with assms(1) show ?thesis
      by (auto simp: save_workflow_graph_def Let_def)
  qed
  from 1 2 show ?thesis by blast
qed

text \<open>
  The instance: a start node with approval type \<^verbatim>\<open>bogus\<close>; creating the definition
  raises ValueError.
\<close>

theorem unknown_approval_type_aborts_save_witness:
  "validate_graph bogus_graph = Inr () \<and>
   save_workflow_graph leave_db None bogus_graph example_user None 0 = Inl ValueError \<and>
   isl (save_workflow_graph leave_db (Some 1) bogus_graph example_user None 0)"
proof -
  let ?n = "\<lparr>n_id = Some ''a'', n_type = Some ''start'', n_position = None,
            n_data = Some (PDict [(''label'', PStr ''Start''),
                                  (''approval_type'', PStr ''bogus'')])\<rparr>"
  have v: "validate_graph bogus_graph = Inr ()"
    by code_simp
  have h: "g_nodes bogus_graph = Some [?n]" "?n \<in> set [?n]"
    "n_data ?n = Some (PDict [(''label'', PStr ''Start''), (''approval_type'', PStr ''bogus'')])"
    "map_of [(''label'', PStr ''Start''), (''approval_type'', PStr ''bogus'')] ''approval_type''
       = Some (PStr ''bogus'')"
    "PStr ''bogus'' \<notin> {PStr ''sequential'', PStr ''parallel_all'', PStr ''parallel_any'',
               PStr ''parallel_majority''}"
    by (simp_all add: bogus_graph_def)
  from unknown_approval_type_aborts_save[OF v h, of leave_db "Some 1" example_user None 0]
  have a: "isl (save_workflow_graph leave_db (Some 1) bogus_graph example_user None 0)"
    by auto
  have b: "save_workflow_graph leave_db None bogus_graph example_user None 0 = Inl ValueError"
    by code_simp
  from v a b show ?thesis by simp
qed
end
